theory Spec2Isabelle
  imports Main "HOL-Library.Char_ord" "HOL-Library.List_Lexorder" "HOL-Library.AList"
begin

text \<open>
  A model of \<open>append_change_summary.py\<close>, the script that appends a summary of the
  Git changes since a checkpoint to a note, and the properties of its formatter, its
  appender, its checkpoint store and its orchestrator. Each function of the script is
  a definition of the same name (without the leading underscore). What lies outside
  the script is an argument of the model: the answers of \<open>git\<close>, the clock, the
  environment, the parsed command line, and the files as a store of texts.
\<close>

section \<open>Python strings\<close>

text \<open>
  A Python \<open>str\<close> is a \<^typ>\<open>string\<close>: one \<^typ>\<open>char\<close> per code point, for the
  code points below 256. The two characters of the source's literals that lie beyond
  that range, the em dash of the header line and the ellipsis of the overflow line,
  stand as their three UTF-8 code units; none of the six is white space.
\<close>

definition em_dash :: string where
  "em_dash = [char_of (226::nat), char_of (128::nat), char_of (148::nat)]"

definition ellipsis :: string where
  "ellipsis = [char_of (226::nat), char_of (128::nat), char_of (166::nat)]"

text \<open>\<open>str.isspace\<close> on one character: the white space code points below 256.\<close>

definition is_space :: "char \<Rightarrow> bool" where
  "is_space c =
     (let n = (of_char c :: nat)
      in (9 \<le> n \<and> n \<le> 13) \<or> (28 \<le> n \<and> n \<le> 32) \<or> n = 133 \<or> n = 160)"

definition lstrip :: "string \<Rightarrow> string" where
  "lstrip s = dropWhile is_space s"

definition rstrip :: "string \<Rightarrow> string" where
  "rstrip s = rev (dropWhile is_space (rev s))"

definition strip :: "string \<Rightarrow> string" where
  "strip s = rstrip (lstrip s)"

text \<open>\<open>sep.join(xs)\<close>.\<close>

fun join :: "string \<Rightarrow> string list \<Rightarrow> string" where
  "join sep [] = []"
| "join sep [x] = x"
| "join sep (x # y # ys) = x @ sep @ join sep (y # ys)"

text \<open>\<open>s.endswith(t)\<close> and \<open>s.startswith(t)\<close>.\<close>

definition endswith :: "string \<Rightarrow> string \<Rightarrow> bool" where
  "endswith s t = (length t \<le> length s \<and> drop (length s - length t) s = t)"

definition startswith :: "string \<Rightarrow> string \<Rightarrow> bool" where
  "startswith s t = (take (length t) s = t)"

text \<open>\<open>str(n)\<close> for an integer: decimal digits, most significant first.\<close>

definition digit_char :: "nat \<Rightarrow> char" where
  "digit_char d = char_of (48 + d)"

fun nat_digits :: "nat \<Rightarrow> string \<Rightarrow> string" where
  "nat_digits n acc =
     (if n < 10 then digit_char n # acc
      else nat_digits (n div 10) (digit_char (n mod 10) # acc))"

declare nat_digits.simps [simp del]

definition str_nat :: "nat \<Rightarrow> string" where
  "str_nat n = nat_digits n []"

definition str_int :: "int \<Rightarrow> string" where
  "str_int i = (if i < 0 then CHR ''-'' # str_nat (nat (- i)) else str_nat (nat i))"

text \<open>\<open>format(n, "02d")\<close> and \<open>"04d"\<close>: left padding with zeros to a width.\<close>

definition zero_pad :: "nat \<Rightarrow> nat \<Rightarrow> string" where
  "zero_pad w n = replicate (w - length (str_nat n)) (CHR ''0'') @ str_nat n"

section \<open>Paths\<close>

text \<open>
  A \<open>pathlib.Path\<close> on a POSIX system: the anchor (empty, one slash or two) and the
  components. \<open>Path s\<close> drops empty and \<open>.\<close> components as \<open>pathlib\<close> does; \<open>..\<close>
  and symbolic links are kept as they are written.
\<close>

record path =
  anchor :: string
  parts :: "string list"

fun split_on :: "char \<Rightarrow> string \<Rightarrow> string list" where
  "split_on d [] = [[]]"
| "split_on d (c # cs) =
     (if c = d then [] # split_on d cs
      else (case split_on d cs of
              [] \<Rightarrow> [[c]]
            | w # ws \<Rightarrow> (c # w) # ws))"

definition path_anchor :: "string \<Rightarrow> string" where
  "path_anchor s =
     (if startswith s ''//'' \<and> \<not> startswith s ''///'' then ''//''
      else if startswith s ''/'' then ''/''
      else '''')"

definition Path :: "string \<Rightarrow> path" where
  "Path s = \<lparr> anchor = path_anchor s,
              parts = filter (\<lambda>c. c \<noteq> '''' \<and> c \<noteq> ''.'') (split_on (CHR ''/'') s) \<rparr>"

text \<open>\<open>p / name\<close> for a relative \<open>name\<close> (every right operand of the source is one).\<close>

definition path_div :: "path \<Rightarrow> string \<Rightarrow> path" where
  "path_div p s = p \<lparr> parts := parts p @ parts (Path s) \<rparr>"

text \<open>\<open>p.name\<close>: the last component, the empty string when there is none.\<close>

definition path_name :: "path \<Rightarrow> string" where
  "path_name p = (if parts p = [] then '''' else last (parts p))"

definition repo_name :: "path \<Rightarrow> string" where
  "repo_name repo_root = path_name repo_root"

definition short_sha :: "string \<Rightarrow> string" where
  "short_sha sha = take 7 sha"

section \<open>The entry formatter\<close>

text \<open>
  \<open>when.strftime("%Y-%m-%d %H:%M")\<close> on the fields of a \<open>datetime\<close>; the year is
  written with four digits, as every platform does for the years 1000 to 9999.
\<close>

record datetime =
  year :: nat
  month :: nat
  day :: nat
  hour :: nat
  minute :: nat

definition strftime :: "datetime \<Rightarrow> string" where
  "strftime d =
     zero_pad 4 (year d) @ ''-'' @ zero_pad 2 (month d) @ ''-'' @ zero_pad 2 (day d)
       @ '' '' @ zero_pad 2 (hour d) @ '':'' @ zero_pad 2 (minute d)"

text \<open>The keyword arguments of \<open>_format_entry\<close> (\<open>when_dt\<close> is the source's \<open>when\<close>).\<close>

record entry_args =
  when_dt :: datetime
  repo_root :: path
  project_name :: "string option"
  branch :: string
  start_sha :: string
  end_sha :: string
  commits :: "string list"
  files :: "string list"
  diffstat :: "string option"
  working_tree :: "string list option"
  max_commits :: int
  max_files :: int

text \<open>\<open>xs[: n]\<close> for a bound \<open>n\<close> that is not negative.\<close>

definition slice_to :: "'a list \<Rightarrow> int \<Rightarrow> 'a list" where
  "slice_to xs n = take (nat n) xs"

text \<open>
  The list \<open>lines\<close> that \<open>_format_entry\<close> builds, statement by statement: each \<open>let\<close>
  is one \<open>append\<close> or one \<open>if\<close> block of the source. An optional value is true
  when it is present and not empty.
\<close>

definition entry_lines :: "entry_args \<Rightarrow> string list" where
  "entry_lines a =
     (let title_project =
            (case project_name a of
               None \<Rightarrow> repo_name (repo_root a)
             | Some p \<Rightarrow> if p \<noteq> [] then p else repo_name (repo_root a));
          ts = strftime (when_dt a);
          lines = [];
          lines = lines @ [''## '' @ ts @ '' '' @ em_dash @ '' '' @ title_project
                             @ '' ('' @ branch a @ '')''];
          lines = lines @ [''''];
          lines = lines @ [''- Repo: '' @ repo_name (repo_root a)];
          lines = lines @ [''- Range: '' @ short_sha (start_sha a) @ ''..''
                             @ short_sha (end_sha a)];
          lines = lines @ [''''];
          lines =
            (if commits a \<noteq> [] then
               (let lines = lines @ [''### Commits''];
                    shown = slice_to (commits a) (max 0 (max_commits a));
                    lines = lines @ map (\<lambda>c. ''- '' @ c) shown;
                    lines =
                      (if max_commits a \<ge> 0 \<and> int (length (commits a)) > max_commits a
                       then lines @ [''- '' @ ellipsis @ ''and ''
                              @ str_int (int (length (commits a)) - max_commits a)
                              @ '' more'']
                       else lines)
                in lines @ [''''])
             else lines);
          lines =
            (if files a \<noteq> [] then
               (let lines = lines @ [''### Files''];
                    shown = slice_to (files a) (max 0 (max_files a));
                    lines = lines @ map (\<lambda>f. ''- '' @ f) shown;
                    lines =
                      (if max_files a \<ge> 0 \<and> int (length (files a)) > max_files a
                       then lines @ [''- '' @ ellipsis @ ''and ''
                              @ str_int (int (length (files a)) - max_files a)
                              @ '' more'']
                       else lines)
                in lines @ [''''])
             else lines);
          lines =
            (case diffstat a of
               None \<Rightarrow> lines
             | Some d \<Rightarrow>
                 if d \<noteq> [] then
                   lines @ [''### Stats''] @ [''```''] @ [d] @ [''```''] @ ['''']
                 else lines);
          lines =
            (case working_tree a of
               None \<Rightarrow> lines
             | Some wts \<Rightarrow>
                 if wts \<noteq> [] then
                   (let lines = lines @ [''### Working tree (uncommitted)''];
                        lines = lines @ map (\<lambda>wt. ''- '' @ wt) wts
                    in lines @ [''''])
                 else lines)
      in lines)"

definition format_entry :: "entry_args \<Rightarrow> string" where
  "format_entry a = rstrip (join [CHR 0x0A] (entry_lines a)) @ [CHR 0x0A]"

text \<open>
  The five blocks of \<open>_format_entry\<close>, each the lines its statements append;
  \<open>entry_lines_blocks\<close> below shows that \<open>entry_lines\<close> is their concatenation.
\<close>

definition header_block :: "entry_args \<Rightarrow> string list" where
  "header_block a =
     [''## '' @ strftime (when_dt a) @ '' '' @ em_dash @ '' ''
        @ (case project_name a of
             None \<Rightarrow> repo_name (repo_root a)
           | Some p \<Rightarrow> if p \<noteq> [] then p else repo_name (repo_root a))
        @ '' ('' @ branch a @ '')'',
      '''',
      ''- Repo: '' @ repo_name (repo_root a),
      ''- Range: '' @ short_sha (start_sha a) @ ''..'' @ short_sha (end_sha a),
      '''']"

definition overflow_line :: "int \<Rightarrow> string" where
  "overflow_line k = ''- '' @ ellipsis @ ''and '' @ str_int k @ '' more''"

definition bullet :: "string \<Rightarrow> string" where
  "bullet x = ''- '' @ x"

definition commits_block :: "entry_args \<Rightarrow> string list" where
  "commits_block a =
     (if commits a \<noteq> [] then
        [''### Commits'']
        @ map bullet (slice_to (commits a) (max 0 (max_commits a)))
        @ (if max_commits a \<ge> 0 \<and> int (length (commits a)) > max_commits a
           then [overflow_line (int (length (commits a)) - max_commits a)] else [])
        @ ['''']
      else [])"

definition files_block :: "entry_args \<Rightarrow> string list" where
  "files_block a =
     (if files a \<noteq> [] then
        [''### Files'']
        @ map bullet (slice_to (files a) (max 0 (max_files a)))
        @ (if max_files a \<ge> 0 \<and> int (length (files a)) > max_files a
           then [overflow_line (int (length (files a)) - max_files a)] else [])
        @ ['''']
      else [])"

definition stats_block :: "entry_args \<Rightarrow> string list" where
  "stats_block a =
     (case diffstat a of
        None \<Rightarrow> []
      | Some d \<Rightarrow> if d \<noteq> [] then [''### Stats'', ''```'', d, ''```'', ''''] else [])"

definition working_tree_block :: "entry_args \<Rightarrow> string list" where
  "working_tree_block a =
     (case working_tree a of
        None \<Rightarrow> []
      | Some wts \<Rightarrow>
          if wts \<noteq> [] then [''### Working tree (uncommitted)''] @ map bullet wts @ ['''']
          else [])"


section \<open>The note appender\<close>

text \<open>
  The file system is a store of regular text files by path. Directories are not
  modelled: \<open>_ensure_parent_dir\<close> changes no file, and reading or writing a path
  fails only where the source's own checks say so.
\<close>

type_synonym fs = "path \<rightharpoonup> string"

definition ensure_parent_dir :: "fs \<Rightarrow> path \<Rightarrow> fs" where
  "ensure_parent_dir fs p = fs"

definition append_to_note :: "fs \<Rightarrow> path \<Rightarrow> string \<Rightarrow> fs" where
  "append_to_note fs note_path entry =
     (let fs = ensure_parent_dir fs note_path
      in case fs note_path of
           Some existing \<Rightarrow>
             (let sep = (if endswith existing [CHR 0x0A] then '''' else [CHR 0x0A])
              in fs(note_path \<mapsto> existing @ sep @ entry))
         | None \<Rightarrow> fs(note_path \<mapsto> entry))"


section \<open>Python values and errors\<close>

text \<open>
  The values that \<open>json.loads\<close> returns. A float keeps the text of its literal: what
  Python computes from a float (its truth value, its truncation, its text) is taken
  from \<open>runtime\<close> below. An object is the list of its items in insertion order,
  with distinct keys when it comes from \<open>json.loads\<close>. \<open>JNull\<close> is \<open>None\<close>.
\<close>

datatype json =
    JNull
  | JBool bool
  | JInt int
  | JFloat string
  | JStr string
  | JArr "json list"
  | JObj "(string \<times> json) list"

text \<open>The exceptions that reach the caller of \<open>main\<close>.\<close>

datatype error =
    RuntimeError string
  | JSONDecodeError
  | AttributeError
  | TypeError
  | ValueError
  | OverflowError

text \<open>
  What the model takes from the Python runtime as given: the truth value of a float,
  \<open>int\<close> of a float, the text \<open>json.dumps\<close> writes for a float, and \<open>str\<close> of a
  float, a list or a dict.
\<close>

record runtime =
  float_bool :: "string \<Rightarrow> bool"
  float_int :: "string \<Rightarrow> error + int"
  float_json :: "string \<Rightarrow> string"
  repr :: "json \<Rightarrow> string"

section \<open>Reading JSON\<close>

definition is_digit :: "char \<Rightarrow> bool" where
  "is_digit c = (48 \<le> (of_char c :: nat) \<and> (of_char c :: nat) \<le> 57)"

definition digit_val :: "char \<Rightarrow> nat" where
  "digit_val c = of_char c - 48"

definition hex_val :: "char \<Rightarrow> nat option" where
  "hex_val c =
     (let n = (of_char c :: nat)
      in if 48 \<le> n \<and> n \<le> 57 then Some (n - 48)
         else if 97 \<le> n \<and> n \<le> 102 then Some (n - 87)
         else if 65 \<le> n \<and> n \<le> 70 then Some (n - 55)
         else None)"

definition hex4 :: "char \<Rightarrow> char \<Rightarrow> char \<Rightarrow> char \<Rightarrow> nat option" where
  "hex4 a b c d =
     (case (hex_val a, hex_val b, hex_val c, hex_val d) of
        (Some x, Some y, Some z, Some w) \<Rightarrow> Some (((x * 16 + y) * 16 + z) * 16 + w)
      | _ \<Rightarrow> None)"

text \<open>
  The characters of an escape \<open>\uXXXX\<close>: the code point itself below 256, its UTF-8
  code units beyond (each surrogate escape on its own).
\<close>

definition code_units :: "nat \<Rightarrow> string" where
  "code_units n =
     (if n < 256 then [char_of n]
      else if n < 2048 then [char_of (192 + n div 64), char_of (128 + n mod 64)]
      else [char_of (224 + n div 4096), char_of (128 + (n div 64) mod 64),
            char_of (128 + n mod 64)])"

definition simple_escape :: "char \<Rightarrow> char option" where
  "simple_escape e =
     (if e = CHR 0x22 then Some (CHR 0x22)
      else if e = CHR 0x5C then Some (CHR 0x5C)
      else if e = CHR ''/'' then Some (CHR ''/'')
      else if e = CHR ''b'' then Some (CHR 0x08)
      else if e = CHR ''f'' then Some (CHR 0x0C)
      else if e = CHR ''n'' then Some (CHR 0x0A)
      else if e = CHR ''r'' then Some (CHR 0x0D)
      else if e = CHR ''t'' then Some (CHR 0x09)
      else None)"

text \<open>
  The body of a string literal, after its opening quote: the decoded text and the
  input after the closing quote. A control character, a bad escape and the end of
  input are errors.
\<close>

fun scan_string :: "string \<Rightarrow> string \<Rightarrow> (string \<times> string) option" where
  "scan_string [] acc = None"
| "scan_string (c # cs) acc =
     (if c = CHR 0x22 then Some (acc, cs)
      else if c = CHR 0x5C then
        (case cs of
           [] \<Rightarrow> None
         | e # cs1 \<Rightarrow>
             if e = CHR ''u'' then
               (case cs1 of
                  h1 # h2 # h3 # h4 # cs2 \<Rightarrow>
                    (case hex4 h1 h2 h3 h4 of
                       None \<Rightarrow> None
                     | Some n \<Rightarrow> scan_string cs2 (acc @ code_units n))
                | _ \<Rightarrow> None)
             else
               (case simple_escape e of
                  None \<Rightarrow> None
                | Some ch \<Rightarrow> scan_string cs1 (acc @ [ch])))
      else if (of_char c :: nat) < 32 then None
      else scan_string cs (acc @ [c]))"

text \<open>Decimal digits to a number.\<close>

definition nat_of_digits :: "string \<Rightarrow> nat" where
  "nat_of_digits ds = foldl (\<lambda>n c. 10 * n + digit_val c) 0 ds"

text \<open>
  A number at the head of the input, as the decoder's pattern matches it: an optional
  minus, \<open>0\<close> or a digit run that starts with a non-zero digit, an optional fraction
  and an optional exponent. The value is an integer when neither fraction nor
  exponent is there, a float otherwise.
\<close>

definition scan_int_part :: "string \<Rightarrow> (string \<times> string) option" where
  "scan_int_part s =
     (case s of
        [] \<Rightarrow> None
      | c # cs \<Rightarrow>
          if c = CHR ''0'' then Some ([c], cs)
          else if is_digit c then Some (takeWhile is_digit s, dropWhile is_digit s)
          else None)"

definition scan_frac :: "string \<Rightarrow> string \<times> string" where
  "scan_frac s =
     (case s of
        c # d # cs \<Rightarrow>
          if c = CHR ''.'' \<and> is_digit d
          then (c # takeWhile is_digit (d # cs), dropWhile is_digit (d # cs))
          else ([], s)
      | _ \<Rightarrow> ([], s))"

definition scan_exp :: "string \<Rightarrow> string \<times> string" where
  "scan_exp s =
     (case s of
        [] \<Rightarrow> ([], s)
      | e # cs \<Rightarrow>
          if e = CHR ''e'' \<or> e = CHR ''E'' then
            (case cs of
               [] \<Rightarrow> ([], s)
             | g # ds \<Rightarrow>
                 if g = CHR ''+'' \<or> g = CHR ''-'' then
                   (if takeWhile is_digit ds \<noteq> []
                    then (e # g # takeWhile is_digit ds, dropWhile is_digit ds)
                    else ([], s))
                 else if takeWhile is_digit cs \<noteq> []
                 then (e # takeWhile is_digit cs, dropWhile is_digit cs)
                 else ([], s))
          else ([], s))"

definition scan_number :: "string \<Rightarrow> (json \<times> string) option" where
  "scan_number s =
     (let (sign, s1) = (case s of
                          [] \<Rightarrow> ([], s)
                        | c # cs \<Rightarrow> if c = CHR ''-'' then ([c], cs) else ([], s))
      in case scan_int_part s1 of
           None \<Rightarrow> None
         | Some (ds, s2) \<Rightarrow>
             (let (frac, s3) = scan_frac s2;
                  (ex, s4) = scan_exp s3
              in if frac = [] \<and> ex = []
                 then Some (JInt (if sign = [] then int (nat_of_digits ds)
                                  else - int (nat_of_digits ds)), s4)
                 else Some (JFloat (sign @ ds @ frac @ ex), s4)))"

text \<open>The tokens of a JSON text.\<close>

datatype token =
    TLBrace | TRBrace | TLBrack | TRBrack | TComma | TColon
  | TStr string
  | TVal json

text \<open>The scalar at the head of the input, tried in the decoder's order.\<close>

definition scan_scalar :: "string \<Rightarrow> (token \<times> string) option" where
  "scan_scalar s =
     (case s of
        [] \<Rightarrow> None
      | c # cs \<Rightarrow>
          if c = CHR 0x22 then
            (case scan_string cs [] of
               None \<Rightarrow> None
             | Some (v, rest) \<Rightarrow> Some (TStr v, rest))
          else if startswith s ''null'' then Some (TVal JNull, drop 4 s)
          else if startswith s ''true'' then Some (TVal (JBool True), drop 4 s)
          else if startswith s ''false'' then Some (TVal (JBool False), drop 5 s)
          else
            (case scan_number s of
               Some (v, rest) \<Rightarrow> Some (TVal v, rest)
             | None \<Rightarrow>
                 if startswith s ''NaN'' then Some (TVal (JFloat ''NaN''), drop 3 s)
                 else if startswith s ''Infinity''
                 then Some (TVal (JFloat ''Infinity''), drop 8 s)
                 else if startswith s ''-Infinity''
                 then Some (TVal (JFloat ''-Infinity''), drop 9 s)
                 else None))"

definition json_ws :: "char \<Rightarrow> bool" where
  "json_ws c = (c = CHR '' '' \<or> c = CHR 0x09 \<or> c = CHR 0x0A \<or> c = CHR 0x0D)"

definition punctuation :: "char \<Rightarrow> token option" where
  "punctuation c =
     (if c = CHR ''{'' then Some TLBrace
      else if c = CHR ''}'' then Some TRBrace
      else if c = CHR ''['' then Some TLBrack
      else if c = CHR '']'' then Some TRBrack
      else if c = CHR '','' then Some TComma
      else if c = CHR '':'' then Some TColon
      else None)"

lemma scan_string_shorter:
  "scan_string cs acc = Some (v, rest) \<Longrightarrow> length rest < length cs"
proof (induction cs acc arbitrary: v rest rule: scan_string.induct)
  case (1 acc)
  then show ?case by simp
next
  case (2 c cs acc)
  then show ?case
    by (fastforce split: if_splits list.splits option.splits)
qed

lemma scan_int_part_shorter:
  "scan_int_part s = Some (ds, rest) \<Longrightarrow> length rest < length s"
  by (auto simp: scan_int_part_def split: list.splits if_splits
      intro: le_imp_less_Suc length_dropWhile_le)

lemma scan_frac_shorter: "scan_frac s = (f, rest) \<Longrightarrow> length rest \<le> length s"
  by (auto simp: scan_frac_def split: list.splits if_splits
      intro: le_SucI length_dropWhile_le)

lemma scan_exp_shorter: "scan_exp s = (f, rest) \<Longrightarrow> length rest \<le> length s"
  by (auto simp: scan_exp_def split: list.splits if_splits
      intro: le_SucI length_dropWhile_le)

lemma scan_number_shorter:
  "scan_number s = Some (v, rest) \<Longrightarrow> length rest < length s"
proof -
  assume a: "scan_number s = Some (v, rest)"
  obtain sign s1 where s1: "(case s of [] \<Rightarrow> ([], s)
      | c # cs \<Rightarrow> if c = CHR ''-'' then ([c], cs) else ([], s)) = (sign, s1)"
    by force
  then have l1: "length s1 \<le> length s"
    by (auto split: list.splits if_splits)
  from a s1 obtain ds s2 where s2: "scan_int_part s1 = Some (ds, s2)"
    by (auto simp: scan_number_def split: option.splits)
  obtain frac s3 where s3: "scan_frac s2 = (frac, s3)" by force
  obtain ex s4 where s4: "scan_exp s3 = (ex, s4)" by force
  from a s1 s2 s3 s4 have "rest = s4"
    by (auto simp: scan_number_def split: if_splits)
  with l1 scan_int_part_shorter [OF s2] scan_frac_shorter [OF s3] scan_exp_shorter [OF s4]
  show ?thesis by simp
qed

lemma scan_scalar_shorter:
  "scan_scalar s = Some (t, rest) \<Longrightarrow> length rest < length s"
  by (auto simp: scan_scalar_def split: list.splits if_splits option.splits
      dest: scan_string_shorter scan_number_shorter)

text \<open>The token list of a text; \<open>None\<close> where no token starts.\<close>

function tokens :: "string \<Rightarrow> token list option" where
  "tokens [] = Some []"
| "tokens (c # cs) =
     (if json_ws c then tokens cs
      else (case punctuation c of
              Some t \<Rightarrow> map_option (\<lambda>ts. t # ts) (tokens cs)
            | None \<Rightarrow>
                (case scan_scalar (c # cs) of
                   None \<Rightarrow> None
                 | Some (t, rest) \<Rightarrow> map_option (\<lambda>ts. t # ts) (tokens rest))))"
  by pat_completeness auto
termination
  by (relation "measure length") (auto dest: scan_scalar_shorter)

text \<open>
  The parser reads the tokens left to right with a stack of the containers that are
  open: an array with the elements read so far, an object with the items read so far
  and the key whose value is being read.
\<close>

datatype frame =
    FArr "json list"
  | FObj "(string \<times> json) list" string

datatype expect =
    Value            \<comment> \<open>a value must follow\<close>
  | ValueOrClose     \<comment> \<open>after \<open>[\<close>: a value or \<open>]\<close>\<close>
  | KeyOrClose       \<comment> \<open>after \<open>{\<close>: a key or \<open>}\<close>\<close>
  | Key "(string \<times> json) list"  \<comment> \<open>after a comma in an object: a key\<close>
  | Colon "(string \<times> json) list" string  \<comment> \<open>after a key\<close>
  | CommaOrClose     \<comment> \<open>after a value in a container\<close>
  | Finished json    \<comment> \<open>the document's value is complete\<close>

text \<open>
  A completed value goes to the innermost open container. A key that occurs again
  takes the new value and keeps its place, as in a Python dict.
\<close>

fun put_value :: "json \<Rightarrow> frame list \<Rightarrow> expect \<times> frame list" where
  "put_value v [] = (Finished v, [])"
| "put_value v (FArr xs # st) = (CommaOrClose, FArr (xs @ [v]) # st)"
| "put_value v (FObj kvs k # st) = (CommaOrClose, FObj (AList.update k v kvs) k # st)"

fun parse_step :: "expect \<times> frame list \<Rightarrow> token \<Rightarrow> (expect \<times> frame list) option" where
  "parse_step (Value, st) t =
     (case t of
        TStr s \<Rightarrow> Some (put_value (JStr s) st)
      | TVal v \<Rightarrow> Some (put_value v st)
      | TLBrack \<Rightarrow> Some (ValueOrClose, FArr [] # st)
      | TLBrace \<Rightarrow> Some (KeyOrClose, st)
      | _ \<Rightarrow> None)"
| "parse_step (ValueOrClose, st) t =
     (case t of
        TRBrack \<Rightarrow> (case st of FArr xs # st' \<Rightarrow> Some (put_value (JArr xs) st') | _ \<Rightarrow> None)
      | TStr s \<Rightarrow> Some (put_value (JStr s) st)
      | TVal v \<Rightarrow> Some (put_value v st)
      | TLBrack \<Rightarrow> Some (ValueOrClose, FArr [] # st)
      | TLBrace \<Rightarrow> Some (KeyOrClose, st)
      | _ \<Rightarrow> None)"
| "parse_step (KeyOrClose, st) t =
     (case t of
        TRBrace \<Rightarrow> Some (put_value (JObj []) st)
      | TStr k \<Rightarrow> Some (Colon [] k, st)
      | _ \<Rightarrow> None)"
| "parse_step (Key kvs, st) t =
     (case t of
        TStr k \<Rightarrow> Some (Colon kvs k, st)
      | _ \<Rightarrow> None)"
| "parse_step (Colon kvs k, st) t =
     (case t of
        TColon \<Rightarrow> Some (Value, FObj kvs k # st)
      | _ \<Rightarrow> None)"
| "parse_step (CommaOrClose, st) t =
     (case st of
        FArr xs # st' \<Rightarrow>
          (case t of
             TComma \<Rightarrow> Some (Value, st)
           | TRBrack \<Rightarrow> Some (put_value (JArr xs) st')
           | _ \<Rightarrow> None)
      | FObj kvs k # st' \<Rightarrow>
          (case t of
             TComma \<Rightarrow> Some (Key kvs, st')
           | TRBrace \<Rightarrow> Some (put_value (JObj kvs) st')
           | _ \<Rightarrow> None)
      | [] \<Rightarrow> None)"
| "parse_step (Finished v, st) t = None"

fun parse_tokens :: "expect \<times> frame list \<Rightarrow> token list \<Rightarrow> json option" where
  "parse_tokens (e, st) [] = (case e of Finished v \<Rightarrow> Some v | _ \<Rightarrow> None)"
| "parse_tokens (e, st) (t # ts) =
     (case parse_step (e, st) t of
        None \<Rightarrow> None
      | Some next \<Rightarrow> parse_tokens next ts)"

text \<open>\<open>json.loads\<close>: the value of a text, or \<open>JSONDecodeError\<close>.\<close>

definition json_loads :: "string \<Rightarrow> error + json" where
  "json_loads s =
     (case tokens s of
        None \<Rightarrow> Inl JSONDecodeError
      | Some ts \<Rightarrow>
          (case parse_tokens (Value, []) ts of
             None \<Rightarrow> Inl JSONDecodeError
           | Some v \<Rightarrow> Inr v))"

section \<open>Writing JSON\<close>

definition hex_digit :: "nat \<Rightarrow> char" where
  "hex_digit d = (if d < 10 then char_of (48 + d) else char_of (87 + d))"

text \<open>One character of a string, as \<open>json.dumps\<close> writes it with \<open>ensure_ascii\<close>.\<close>

definition escape_char :: "char \<Rightarrow> string" where
  "escape_char c =
     (if c = CHR 0x22 then [CHR 0x5C, CHR 0x22]
      else if c = CHR 0x5C then [CHR 0x5C, CHR 0x5C]
      else if c = CHR 0x0A then [CHR 0x5C, CHR ''n'']
      else if c = CHR 0x0D then [CHR 0x5C, CHR ''r'']
      else if c = CHR 0x09 then [CHR 0x5C, CHR ''t'']
      else if c = CHR 0x08 then [CHR 0x5C, CHR ''b'']
      else if c = CHR 0x0C then [CHR 0x5C, CHR ''f'']
      else if 32 \<le> (of_char c :: nat) \<and> (of_char c :: nat) \<le> 126 then [c]
      else [CHR 0x5C, CHR ''u'', CHR ''0'', CHR ''0'',
            hex_digit ((of_char c :: nat) div 16), hex_digit ((of_char c :: nat) mod 16)])"

definition json_string :: "string \<Rightarrow> string" where
  "json_string s = [CHR 0x22] @ concat (map escape_char s) @ [CHR 0x22]"

text \<open>
  \<open>json.dumps(v, indent=2, sort_keys=True)\<close> at nesting level \<open>lvl\<close>: an empty
  container on one line, the items of any other one on lines of their own, indented
  two spaces per level, the items of an object in the order of their keys
  (\<open>dumps_items\<close> gives each key with the text of its value).
\<close>

definition newline_indent :: "nat \<Rightarrow> string" where
  "newline_indent lvl = CHR 0x0A # replicate (2 * lvl) (CHR '' '')"

fun dumps :: "runtime \<Rightarrow> nat \<Rightarrow> json \<Rightarrow> string"
  and dumps_elems :: "runtime \<Rightarrow> nat \<Rightarrow> json list \<Rightarrow> string list"
  and dumps_items :: "runtime \<Rightarrow> nat \<Rightarrow> (string \<times> json) list \<Rightarrow> (string \<times> string) list"
where
  "dumps rt lvl JNull = ''null''"
| "dumps rt lvl (JBool b) = (if b then ''true'' else ''false'')"
| "dumps rt lvl (JInt i) = str_int i"
| "dumps rt lvl (JFloat x) = float_json rt x"
| "dumps rt lvl (JStr s) = json_string s"
| "dumps rt lvl (JArr xs) =
     (if xs = [] then ''[]''
      else ''['' @ newline_indent (Suc lvl)
           @ join ('','' @ newline_indent (Suc lvl)) (dumps_elems rt (Suc lvl) xs)
           @ newline_indent lvl @ '']'')"
| "dumps rt lvl (JObj kvs) =
     (if kvs = [] then ''{}''
      else ''{'' @ newline_indent (Suc lvl)
           @ join ('','' @ newline_indent (Suc lvl))
               (map (\<lambda>(k, text). json_string k @ '': '' @ text)
                  (sort_key fst (dumps_items rt (Suc lvl) kvs)))
           @ newline_indent lvl @ ''}'')"
| "dumps_elems rt lvl [] = []"
| "dumps_elems rt lvl (x # xs) = dumps rt lvl x # dumps_elems rt lvl xs"
| "dumps_items rt lvl [] = []"
| "dumps_items rt lvl ((k, v) # kvs) =
     (k, dumps rt lvl v) # dumps_items rt lvl kvs"

definition json_dumps :: "runtime \<Rightarrow> json \<Rightarrow> string" where
  "json_dumps rt v = dumps rt 0 v"

section \<open>Python operations on values\<close>

text \<open>Sequencing of steps that may raise.\<close>

definition and_then :: "error + 'a \<Rightarrow> ('a \<Rightarrow> error + 'b) \<Rightarrow> error + 'b" where
  "and_then m k = (case m of Inl e \<Rightarrow> Inl e | Inr x \<Rightarrow> k x)"

text \<open>The truth value of a value, and \<open>a or b\<close>.\<close>

fun truthy :: "runtime \<Rightarrow> json \<Rightarrow> bool" where
  "truthy rt JNull = False"
| "truthy rt (JBool b) = b"
| "truthy rt (JInt i) = (i \<noteq> 0)"
| "truthy rt (JFloat x) = float_bool rt x"
| "truthy rt (JStr s) = (s \<noteq> [])"
| "truthy rt (JArr xs) = (xs \<noteq> [])"
| "truthy rt (JObj kvs) = (kvs \<noteq> [])"

definition py_or :: "runtime \<Rightarrow> json \<Rightarrow> json \<Rightarrow> json" where
  "py_or rt a b = (if truthy rt a then a else b)"

text \<open>An optional string as a value: \<open>None\<close> or a \<open>str\<close>.\<close>

definition of_opt :: "string option \<Rightarrow> json" where
  "of_opt v = (case v of None \<Rightarrow> JNull | Some s \<Rightarrow> JStr s)"

text \<open>\<open>str(v)\<close>, which is also what an f-string writes for \<open>v\<close>.\<close>

fun py_str :: "runtime \<Rightarrow> json \<Rightarrow> string" where
  "py_str rt (JStr s) = s"
| "py_str rt (JInt i) = str_int i"
| "py_str rt (JBool b) = (if b then ''True'' else ''False'')"
| "py_str rt JNull = ''None''"
| "py_str rt v = repr rt v"

text \<open>
  \<open>int(s)\<close> for a string: white space around, an optional sign, then digits with
  single underscores between them. (CPython's limit on the number of digits is not
  modelled.)
\<close>

fun digits_ok :: "string \<Rightarrow> bool" where
  "digits_ok [] = False"
| "digits_ok [c] = is_digit c"
| "digits_ok (c # d # cs) =
     (is_digit c \<and> (if d = CHR ''_'' then digits_ok cs else digits_ok (d # cs)))"

definition int_of_str :: "string \<Rightarrow> error + int" where
  "int_of_str s =
     (let t = strip s;
          (neg, ds) = (case t of
                         [] \<Rightarrow> (False, t)
                       | c # cs \<Rightarrow>
                           if c = CHR ''-'' then (True, cs)
                           else if c = CHR ''+'' then (False, cs)
                           else (False, t))
      in if digits_ok ds
         then (let n = int (nat_of_digits (filter is_digit ds))
               in Inr (if neg then - n else n))
         else Inl ValueError)"

fun py_int :: "runtime \<Rightarrow> json \<Rightarrow> error + int" where
  "py_int rt (JInt i) = Inr i"
| "py_int rt (JBool b) = Inr (if b then 1 else 0)"
| "py_int rt (JFloat x) = float_int rt x"
| "py_int rt (JStr s) = int_of_str s"
| "py_int rt v = Inl TypeError"

text \<open>\<open>raw.get(key, default)\<close>; a value that is no dict has no \<open>get\<close>.\<close>

definition dict_get :: "json \<Rightarrow> string \<Rightarrow> json \<Rightarrow> error + json" where
  "dict_get raw key dflt =
     (case raw of
        JObj kvs \<Rightarrow> Inr (case map_of kvs key of None \<Rightarrow> dflt | Some v \<Rightarrow> v)
      | _ \<Rightarrow> Inl AttributeError)"

section \<open>Configuration and checkpoint\<close>

text \<open>
  \<open>_read_json\<close>: only the absence of the file is caught; a text that \<open>json.loads\<close>
  rejects raises to the caller.
\<close>

definition read_json :: "fs \<Rightarrow> path \<Rightarrow> error + json" where
  "read_json fs p =
     (case fs p of
        None \<Rightarrow> Inr (JObj [])
      | Some text \<Rightarrow> json_loads text)"

definition write_json :: "runtime \<Rightarrow> fs \<Rightarrow> path \<Rightarrow> json \<Rightarrow> fs" where
  "write_json rt fs p data =
     (let fs = ensure_parent_dir fs p
      in fs(p \<mapsto> json_dumps rt data @ [CHR 0x0A]))"

text \<open>
  The fields of \<open>Config\<close>. The two optional ones hold whatever value the file has
  under their key; the other four are converted when the configuration is loaded.
\<close>

record config =
  cfg_obsidian_note_path :: json
  cfg_project_name :: json
  cfg_base_ref :: string
  cfg_include_diffstat :: bool
  cfg_max_commits :: int
  cfg_max_files :: int

definition config_paths :: "path \<Rightarrow> path list" where
  "config_paths root =
     [path_div (path_div root ''.codex'') ''obsidian-change-summary.json'',
      path_div root ''.obsidian-change-summary.json'']"

text \<open>The loop over \<open>config_paths\<close>: the first file that exists is read.\<close>

fun first_config :: "fs \<Rightarrow> path list \<Rightarrow> error + json" where
  "first_config fs [] = Inr (JObj [])"
| "first_config fs (p # ps) =
     (if fs p \<noteq> None then read_json fs p else first_config fs ps)"

definition load_config :: "runtime \<Rightarrow> fs \<Rightarrow> path \<Rightarrow> error + config" where
  "load_config rt fs root =
     and_then (first_config fs (config_paths root)) (\<lambda>raw.
     and_then (dict_get raw ''obsidian_note_path'' JNull) (\<lambda>note_path.
     and_then (dict_get raw ''project_name'' JNull) (\<lambda>project.
     and_then (dict_get raw ''base_ref'' JNull) (\<lambda>base.
     and_then (dict_get raw ''include_diffstat'' (JBool True)) (\<lambda>include.
     and_then (dict_get raw ''max_commits'' (JInt 20)) (\<lambda>mc.
     and_then (py_int rt mc) (\<lambda>mc_int.
     and_then (dict_get raw ''max_files'' (JInt 50)) (\<lambda>mf.
     and_then (py_int rt mf) (\<lambda>mf_int.
       Inr \<lparr> cfg_obsidian_note_path = note_path,
             cfg_project_name = project,
             cfg_base_ref = py_str rt (py_or rt base (JStr ''origin/main'')),
             cfg_include_diffstat = truthy rt include,
             cfg_max_commits = mc_int,
             cfg_max_files = mf_int \<rparr>)))))))))"

definition default_config :: config where
  "default_config =
     \<lparr> cfg_obsidian_note_path = JNull,
       cfg_project_name = JNull,
       cfg_base_ref = ''origin/main'',
       cfg_include_diffstat = True,
       cfg_max_commits = 20,
       cfg_max_files = 50 \<rparr>"

definition state_path :: "path \<Rightarrow> path" where
  "state_path root =
     path_div (path_div root ''.codex'') ''obsidian-change-summary.state.json''"

definition load_last_sha :: "fs \<Rightarrow> path \<Rightarrow> error + string option" where
  "load_last_sha fs root =
     and_then (read_json fs (state_path root)) (\<lambda>raw.
     and_then (dict_get raw ''last_sha'' JNull) (\<lambda>sha.
       Inr (case sha of
              JStr s \<Rightarrow> if strip s \<noteq> [] then Some (strip s) else None
            | _ \<Rightarrow> None)))"

definition write_last_sha :: "runtime \<Rightarrow> fs \<Rightarrow> path \<Rightarrow> string \<Rightarrow> fs" where
  "write_last_sha rt fs root sha =
     write_json rt fs (state_path root) (JObj [(''last_sha'', JStr sha)])"

section \<open>The git queries\<close>

text \<open>
  What \<open>subprocess.run\<close> hands back for a command line and a working directory is
  given from outside; the queries do not change it.
\<close>

record completed =
  returncode :: int
  stdout :: string
  stderr :: string

definition run_git ::
  "(string list \<Rightarrow> path \<Rightarrow> completed) \<Rightarrow> string list \<Rightarrow> path \<Rightarrow> error + string" where
  "run_git run args cwd =
     (let proc = run (''git'' # args) cwd
      in if returncode proc \<noteq> 0
         then Inl (RuntimeError (''git '' @ join '' '' args @ '' failed: ''
                     @ strip (stderr proc)))
         else Inr (stdout proc))"

text \<open>\<open>str.splitlines\<close>: the line boundaries among the code points below 256.\<close>

definition is_linebreak :: "char \<Rightarrow> bool" where
  "is_linebreak c =
     (let n = (of_char c :: nat)
      in (10 \<le> n \<and> n \<le> 13) \<or> (28 \<le> n \<and> n \<le> 30) \<or> n = 133)"

fun splitlines_from :: "string \<Rightarrow> string \<Rightarrow> string list" where
  "splitlines_from [] cur = (if cur = [] then [] else [cur])"
| "splitlines_from [c] cur = (if is_linebreak c then [cur] else [cur @ [c]])"
| "splitlines_from (c # d # cs) cur =
     (if c = CHR 0x0D \<and> d = CHR 0x0A then cur # splitlines_from cs []
      else if is_linebreak c then cur # splitlines_from (d # cs) []
      else splitlines_from (d # cs) (cur @ [c]))"

definition splitlines :: "string \<Rightarrow> string list" where
  "splitlines s = splitlines_from s []"

definition repo_root_git :: "(string list \<Rightarrow> path \<Rightarrow> completed) \<Rightarrow> path \<Rightarrow> error + path" where
  "repo_root_git run cwd =
     and_then (run_git run [''rev-parse'', ''--show-toplevel''] cwd) (\<lambda>out.
       Inr (Path (strip out)))"

definition head_sha :: "(string list \<Rightarrow> path \<Rightarrow> completed) \<Rightarrow> path \<Rightarrow> error + string" where
  "head_sha run cwd =
     and_then (run_git run [''rev-parse'', ''HEAD''] cwd) (\<lambda>out. Inr (strip out))"

definition branch_name :: "(string list \<Rightarrow> path \<Rightarrow> completed) \<Rightarrow> path \<Rightarrow> error + string" where
  "branch_name run cwd =
     and_then (run_git run [''rev-parse'', ''--abbrev-ref'', ''HEAD''] cwd) (\<lambda>out.
       Inr (strip out))"

definition merge_base ::
  "(string list \<Rightarrow> path \<Rightarrow> completed) \<Rightarrow> path \<Rightarrow> string \<Rightarrow> error + string" where
  "merge_base run cwd base_ref =
     and_then (run_git run [''merge-base'', base_ref, ''HEAD''] cwd) (\<lambda>out.
       Inr (strip out))"

definition git_log_oneline ::
  "(string list \<Rightarrow> path \<Rightarrow> completed) \<Rightarrow> path \<Rightarrow> string \<Rightarrow> string \<Rightarrow> error + string list" where
  "git_log_oneline run cwd from_sha to_sha =
     and_then (run_git run [''log'', ''--no-decorate'', ''--format=%h %s'',
                  from_sha @ ''..'' @ to_sha] cwd) (\<lambda>out.
       Inr (map strip (filter (\<lambda>ln. strip ln \<noteq> []) (splitlines out))))"

text \<open>One line of \<open>git diff --name-status\<close>, after \<open>rstrip\<close>, when it is not empty.\<close>

definition name_status_line :: "string \<Rightarrow> string" where
  "name_status_line line =
     (case split_on (CHR 0x09) line of
        [] \<Rightarrow> []
      | p0 # ps \<Rightarrow>
          (let status = strip p0;
               paths = map strip (filter (\<lambda>p. strip p \<noteq> []) ps)
           in case paths of
                a # b # _ \<Rightarrow>
                  if startswith status ''R'' then status @ '' '' @ a @ '' -> '' @ b
                  else if startswith status ''C'' then status @ '' '' @ a @ '' -> '' @ b
                  else status @ '' '' @ a
              | [a] \<Rightarrow> status @ '' '' @ a
              | [] \<Rightarrow> status))"

definition git_name_status ::
  "(string list \<Rightarrow> path \<Rightarrow> completed) \<Rightarrow> path \<Rightarrow> string \<Rightarrow> string \<Rightarrow> error + string list" where
  "git_name_status run cwd from_sha to_sha =
     and_then (run_git run [''diff'', ''--name-status'', from_sha @ ''..'' @ to_sha] cwd) (\<lambda>out.
       Inr (map name_status_line
              (filter (\<lambda>line. line \<noteq> []) (map rstrip (splitlines out)))))"

definition git_shortstat ::
  "(string list \<Rightarrow> path \<Rightarrow> completed) \<Rightarrow> path \<Rightarrow> string \<Rightarrow> string \<Rightarrow> error + string" where
  "git_shortstat run cwd from_sha to_sha =
     and_then (run_git run [''diff'', ''--shortstat'', from_sha @ ''..'' @ to_sha] cwd) (\<lambda>out.
       Inr (strip out))"

definition git_status_porcelain ::
  "(string list \<Rightarrow> path \<Rightarrow> completed) \<Rightarrow> path \<Rightarrow> error + string list" where
  "git_status_porcelain run cwd =
     and_then (run_git run [''status'', ''--porcelain''] cwd) (\<lambda>out.
       Inr (map rstrip (filter (\<lambda>ln. strip ln \<noteq> []) (splitlines out))))"

section \<open>The orchestrator\<close>

text \<open>
  The parsed command line (\<open>args\<close> of \<open>main\<close>), what \<open>main\<close> reads from its
  surroundings, and what it changes: the files, standard output and standard error.
\<close>

record cli_args =
  arg_note :: "string option"
  arg_base :: "string option"
  arg_since :: "string option"
  arg_dry_run :: bool
  arg_no_state :: bool
  arg_no_diffstat :: bool

record env =
  env_run :: "string list \<Rightarrow> path \<Rightarrow> completed"
  env_cwd :: path
  env_environ :: "string \<rightharpoonup> string"
  env_now :: datetime
  env_home :: "string \<rightharpoonup> string"
  env_rt :: runtime

record state =
  st_fs :: fs
  st_out :: string
  st_err :: string

text \<open>\<open>a or b\<close> for an optional string \<open>a\<close> and a string \<open>b\<close>.\<close>

definition or_else :: "string option \<Rightarrow> string \<Rightarrow> string" where
  "or_else a b = (case a of None \<Rightarrow> b | Some s \<Rightarrow> if s \<noteq> [] then s else b)"

text \<open>
  \<open>Path.expanduser\<close>: a relative path whose first component starts with a tilde is
  moved under the home directory that the system gives for that component
  (\<open>env_home\<close>), and raises when there is none.
\<close>

definition expanduser :: "(string \<rightharpoonup> string) \<Rightarrow> path \<Rightarrow> error + path" where
  "expanduser home p =
     (case parts p of
        [] \<Rightarrow> Inr p
      | first # rest \<Rightarrow>
          if anchor p = [] \<and> take 1 first = ''~'' then
            (case home first of
               None \<Rightarrow> Inl (RuntimeError ''Could not determine home directory.'')
             | Some h \<Rightarrow> Inr ((Path h) \<lparr> parts := parts (Path h) @ rest \<rparr>))
          else Inr p)"

text \<open>
  Lines 251 to 259 of \<open>main\<close>: the start of the range. \<open>--since\<close> counts when it is
  not empty; the checkpoint is read only when \<open>--since\<close> does not count and
  \<open>--no-state\<close> is absent; the merge base is asked for when neither gave a start.
\<close>

definition main_start_sha :: "env \<Rightarrow> fs \<Rightarrow> cli_args \<Rightarrow> config \<Rightarrow> path \<Rightarrow> error + string" where
  "main_start_sha E fs a cfg root =
     and_then
       (case arg_since a of
          Some s \<Rightarrow>
            if s \<noteq> [] then Inr (Some s)
            else if \<not> arg_no_state a then load_last_sha fs root
            else Inr None
        | None \<Rightarrow>
            if \<not> arg_no_state a then load_last_sha fs root
            else Inr None)
       (\<lambda>start.
          let base_ref = or_else (arg_base a) (cfg_base_ref cfg)
          in case start of
               None \<Rightarrow> merge_base (env_run E) root base_ref
             | Some s \<Rightarrow>
                 if s \<noteq> [] then Inr s
                 else merge_base (env_run E) root base_ref)"

text \<open>
  Line 240 of \<open>main\<close>: the destination, from the flag, else the configuration, else
  the environment.
\<close>

definition main_note :: "env \<Rightarrow> cli_args \<Rightarrow> config \<Rightarrow> json" where
  "main_note E a cfg =
     py_or (env_rt E)
       (py_or (env_rt E) (of_opt (arg_note a)) (cfg_obsidian_note_path cfg))
       (of_opt (env_environ E ''OBSIDIAN_NOTE_PATH''))"

text \<open>What \<open>main\<close> has when it reaches line 275.\<close>

record gathered =
  g_repo_root :: path
  g_cfg :: config
  g_note :: json
  g_end_sha :: string
  g_start_sha :: string
  g_commits :: "string list"
  g_files :: "string list"
  g_diffstat :: "string option"
  g_working_tree :: "string list option"

datatype stage = MissingNote | Gathered gathered

text \<open>
  Lines 236 to 273 of \<open>main\<close>: nothing is written here. \<open>MissingNote\<close> is the early
  return of line 247.
\<close>

definition main_gather :: "env \<Rightarrow> cli_args \<Rightarrow> fs \<Rightarrow> error + stage" where
  "main_gather E a fs =
     and_then (repo_root_git (env_run E) (env_cwd E)) (\<lambda>root.
     and_then (load_config (env_rt E) fs root) (\<lambda>cfg.
       let note = main_note E a cfg
       in if \<not> truthy (env_rt E) note \<and> \<not> arg_dry_run a then Inr MissingNote
          else
     and_then (head_sha (env_run E) root) (\<lambda>end_sha.
     and_then (main_start_sha E fs a cfg root) (\<lambda>start_sha.
     and_then (git_log_oneline (env_run E) root start_sha end_sha) (\<lambda>commits.
     and_then (git_name_status (env_run E) root start_sha end_sha) (\<lambda>files.
       let include_diffstat = (cfg_include_diffstat cfg \<and> \<not> arg_no_diffstat a)
       in
     and_then (if include_diffstat
               then and_then (git_shortstat (env_run E) root start_sha end_sha)
                      (\<lambda>d. Inr (Some d))
               else Inr None) (\<lambda>diffstat.
       let diffstat = (case diffstat of
                         None \<Rightarrow> None
                       | Some d \<Rightarrow> if d = [] then None else Some d)
       in
     and_then (if commits = [] \<and> files = []
               then and_then (git_status_porcelain (env_run E) root)
                      (\<lambda>wt. Inr (if wt \<noteq> [] then Some wt else None))
               else Inr None) (\<lambda>working_tree.
       Inr (Gathered
             \<lparr> g_repo_root = root, g_cfg = cfg, g_note = note, g_end_sha = end_sha,
               g_start_sha = start_sha, g_commits = commits, g_files = files,
               g_diffstat = diffstat, g_working_tree = working_tree \<rparr>)))))))))"

definition missing_note_message :: string where
  "missing_note_message =
     ''Missing Obsidian note path. Set it in .codex/obsidian-change-summary.json ''
     @ ''as obsidian_note_path, or pass --note, or set OBSIDIAN_NOTE_PATH.''"

definition no_changes_message :: string where
  "no_changes_message = ''No changes detected (no commits, no diff, clean working tree).''"

text \<open>
  The arguments that \<open>main\<close> passes to \<open>_format_entry\<close>. The project name of the
  configuration is used there through its truth value and its text only.
\<close>

definition main_entry_args :: "env \<Rightarrow> gathered \<Rightarrow> string \<Rightarrow> entry_args" where
  "main_entry_args E g br =
     \<lparr> when_dt = env_now E,
       repo_root = g_repo_root g,
       project_name =
         (if truthy (env_rt E) (cfg_project_name (g_cfg g))
          then Some (py_str (env_rt E) (cfg_project_name (g_cfg g))) else None),
       branch = br,
       start_sha = g_start_sha g,
       end_sha = g_end_sha g,
       commits = g_commits g,
       files = g_files g,
       diffstat = g_diffstat g,
       working_tree = g_working_tree g,
       max_commits = cfg_max_commits (g_cfg g),
       max_files = cfg_max_files (g_cfg g) \<rparr>"

text \<open>Lines 275 to 304 of \<open>main\<close>: the report, the writes and the exit status.\<close>

definition main_report :: "env \<Rightarrow> cli_args \<Rightarrow> gathered \<Rightarrow> state \<Rightarrow> state \<times> (error + int)" where
  "main_report E a g s =
     (if g_commits g = [] \<and> g_files g = []
         \<and> (case g_working_tree g of None \<Rightarrow> True | Some wt \<Rightarrow> wt = [])
      then
        (let s = s \<lparr> st_out := st_out s @ no_changes_message @ [CHR 0x0A] \<rparr>;
             s = (if \<not> arg_no_state a \<and> \<not> arg_dry_run a
                  then s \<lparr> st_fs := write_last_sha (env_rt E) (st_fs s)
                                      (g_repo_root g) (g_end_sha g) \<rparr>
                  else s)
         in (s, Inr 0))
      else
        (case branch_name (env_run E) (g_repo_root g) of
           Inl e \<Rightarrow> (s, Inl e)
         | Inr br \<Rightarrow>
             (let entry = format_entry (main_entry_args E g br)
              in if arg_dry_run a \<or> \<not> truthy (env_rt E) (g_note g)
                 then (s \<lparr> st_out := st_out s @ entry \<rparr>, Inr 0)
                 else
                   (case g_note g of
                      JStr n \<Rightarrow>
                        (case expanduser (env_home E) (Path n) of
                           Inl e \<Rightarrow> (s, Inl e)
                         | Inr note_path \<Rightarrow>
                             (let s = s \<lparr> st_fs := append_to_note (st_fs s) note_path entry \<rparr>;
                                  s = (if \<not> arg_no_state a
                                       then s \<lparr> st_fs := write_last_sha (env_rt E) (st_fs s)
                                                           (g_repo_root g) (g_end_sha g) \<rparr>
                                       else s);
                                  s = s \<lparr> st_out := st_out s @ ''Appended change summary to: ''
                                                     @ n @ [CHR 0x0A] \<rparr>
                              in (s, Inr 0)))
                    | _ \<Rightarrow> (s, Inl TypeError)))))"

definition main :: "env \<Rightarrow> cli_args \<Rightarrow> state \<Rightarrow> state \<times> (error + int)" where
  "main E a s =
     (case main_gather E a (st_fs s) of
        Inl e \<Rightarrow> (s, Inl e)
      | Inr MissingNote \<Rightarrow>
          (s \<lparr> st_err := st_err s @ missing_note_message @ [CHR 0x0A] \<rparr>, Inr 2)
      | Inr (Gathered g) \<Rightarrow> main_report E a g s)"

section \<open>Examples\<close>

text \<open>Example arguments: three commits and two files, with bounds two and one.\<close>

definition example_args :: entry_args where
  "example_args =
     \<lparr> when_dt = \<lparr> year = 2024, month = 3, day = 9, hour = 7, minute = 5 \<rparr>,
       repo_root = Path ''/home/dev/EscapeBudget'',
       project_name = None,
       branch = ''main'',
       start_sha = ''0123456789abcdef'',
       end_sha = ''fedcba9876543210'',
       commits = [''aaaaaaa one'', ''bbbbbbb two'', ''ccccccc three''],
       files = [''M a.py'', ''A b.py''],
       diffstat = None,
       working_tree = None,
       max_commits = 2,
       max_files = 1 \<rparr>"

definition negative_bound_args :: entry_args where
  "negative_bound_args = example_args \<lparr> max_commits := - 1, max_files := - 3 \<rparr>"

text \<open>A runtime for the examples, none of which holds a float or prints a container.\<close>

definition example_rt :: runtime where
  "example_rt =
     \<lparr> float_bool = (\<lambda>x. True),
       float_int = (\<lambda>x. Inl OverflowError),
       float_json = (\<lambda>x. x),
       repr = (\<lambda>v. '''') \<rparr>"

text \<open>
  A repository for the examples: \<open>git\<close> answers the queries of \<open>main\<close> with fixed
  texts, the log, the changed files and the status being given; any other command
  fails.
\<close>

definition ok :: "string \<Rightarrow> completed" where
  "ok out = \<lparr> returncode = 0, stdout = out, stderr = '''' \<rparr>"

definition example_run :: "string \<Rightarrow> string \<Rightarrow> string \<Rightarrow> string list \<Rightarrow> path \<Rightarrow> completed" where
  "example_run log_out diff_out status_out argv cwd =
     (if argv = [''git'', ''rev-parse'', ''--show-toplevel'']
      then ok ''/home/dev/EscapeBudget\<newline>''
      else if argv = [''git'', ''rev-parse'', ''HEAD'']
      then ok ''fedcba9876543210\<newline>''
      else if argv = [''git'', ''rev-parse'', ''--abbrev-ref'', ''HEAD'']
      then ok ''main\<newline>''
      else if argv = [''git'', ''merge-base'', ''origin/main'', ''HEAD'']
      then ok ''0123456789abcdef\<newline>''
      else if take 2 argv = [''git'', ''log''] then ok log_out
      else if take 3 argv = [''git'', ''diff'', ''--name-status''] then ok diff_out
      else if take 3 argv = [''git'', ''diff'', ''--shortstat''] then ok ''''
      else if argv = [''git'', ''status'', ''--porcelain''] then ok status_out
      else \<lparr> returncode = 128, stdout = '''', stderr = ''fatal: not a git command'' \<rparr>)"

definition example_env :: "string \<Rightarrow> string \<Rightarrow> string \<Rightarrow> env" where
  "example_env log_out diff_out status_out =
     \<lparr> env_run = example_run log_out diff_out status_out,
       env_cwd = Path ''/home/dev/EscapeBudget/src'',
       env_environ = Map.empty,
       env_now = \<lparr> year = 2024, month = 3, day = 9, hour = 7, minute = 5 \<rparr>,
       env_home = Map.empty,
       env_rt = example_rt \<rparr>"

definition example_cli :: cli_args where
  "example_cli =
     \<lparr> arg_note = Some ''/notes/log.md'', arg_base = None, arg_since = None,
       arg_dry_run = False, arg_no_state = False, arg_no_diffstat = False \<rparr>"

definition example_root :: path where
  "example_root = Path ''/home/dev/EscapeBudget''"

definition empty_state :: state where
  "empty_state = \<lparr> st_fs = Map.empty, st_out = '''', st_err = '''' \<rparr>"

text \<open>What the three example runs have found when they reach line 275.\<close>

definition example_gathered :: "string list \<Rightarrow> string list \<Rightarrow> string list option \<Rightarrow> gathered" where
  "example_gathered cs fls wt =
     \<lparr> g_repo_root = example_root, g_cfg = default_config,
       g_note = JStr ''/notes/log.md'', g_end_sha = ''fedcba9876543210'',
       g_start_sha = ''0123456789abcdef'', g_commits = cs, g_files = fls,
       g_diffstat = None, g_working_tree = wt \<rparr>"

section \<open>Properties of the formatter and the appender\<close>

lemma entry_lines_blocks:
  "entry_lines a =
     header_block a @ commits_block a @ files_block a @ stats_block a @ working_tree_block a"
  unfolding entry_lines_def header_block_def commits_block_def files_block_def
      stats_block_def working_tree_block_def overflow_line_def bullet_def Let_def
  by (cases "diffstat a"; cases "working_tree a"; cases "commits a = []"; cases "files a = []") simp_all


lemma rstrip_last: "rstrip s \<noteq> [] \<Longrightarrow> \<not> is_space (last (rstrip s))"
  unfolding rstrip_def using hd_dropWhile [of is_space "rev s"]
  by (simp add: last_rev)













text \<open>
  Claim C3, as amended. For a negative \<open>max_commits\<close> and a commit list that is not
  empty, the Commits section is its heading and the blank line: no commit is listed
  and there is no overflow line, since the source writes that line only for a bound
  that is not negative. The same holds for a negative \<open>max_files\<close> and the Files
  section.
\<close>

theorem negative_bound_sections:
  "entry_lines a =
     header_block a @ commits_block a @ files_block a @ stats_block a @ working_tree_block a
   \<and> (max_commits a < 0 \<longrightarrow> commits a \<noteq> [] \<longrightarrow> commits_block a = [''### Commits'', ''''])
   \<and> (max_files a < 0 \<longrightarrow> files a \<noteq> [] \<longrightarrow> files_block a = [''### Files'', ''''])"
  using entry_lines_blocks [of a]
  by (simp add: commits_block_def files_block_def slice_to_def)

text \<open>The hypotheses of the amended C3 hold for the example with bounds \<open>-1\<close> and \<open>-3\<close>.\<close>

theorem negative_bound_sections_witness:
  "max_commits negative_bound_args < 0 \<and> commits negative_bound_args \<noteq> []
   \<and> max_files negative_bound_args < 0 \<and> files negative_bound_args \<noteq> []
   \<and> commits_block negative_bound_args = [''### Commits'', '''']
   \<and> files_block negative_bound_args = [''### Files'', '''']"
  using negative_bound_sections [of negative_bound_args]
  by (simp add: negative_bound_args_def example_args_def)

text \<open>
  Claim C3 as stated fails: with bounds \<open>-1\<close> and \<open>-3\<close>, three commits and two
  files, the entry has the two headings and no overflow line.
\<close>

theorem negative_bound_counterexample:
  "entry_lines negative_bound_args =
     [''## 2024-03-09 07:05 '' @ em_dash @ '' EscapeBudget (main)'',
      '''',
      ''- Repo: EscapeBudget'',
      ''- Range: 0123456..fedcba9'',
      '''',
      ''### Commits'',
      '''',
      ''### Files'',
      '''']"
  by code_simp



section \<open>Properties of the checkpoint store and the configuration\<close>

subsection \<open>The decoder and the loader on example texts\<close>

text \<open>The decoder on a few texts: nesting, a repeated key, numbers, and four errors.\<close>

lemma json_loads_examples:
  "json_loads ''{\"max_commits\": 5, \"tags\": [true, null, -1.5e3, \"a b\"], \"max_commits\": 7}''
     = Inr (JObj [(''max_commits'', JInt 7),
                  (''tags'', JArr [JBool True, JNull, JFloat ''-1.5e3'', JStr ''a b''])])"
  "json_loads '' [ {}, [ ], -0 ] '' = Inr (JArr [JObj [], JArr [], JInt 0])"
  "json_loads ''[1,]'' = Inl JSONDecodeError"
  "json_loads ''{\"a\" 1}'' = Inl JSONDecodeError"
  "json_loads ''01'' = Inl JSONDecodeError"
  "json_loads '''' = Inl JSONDecodeError"
  by code_simp+

text \<open>A configuration file with every key, and one whose bound is no number.\<close>

lemma load_config_examples:
  "load_config example_rt
     [path_div example_root ''.obsidian-change-summary.json'' \<mapsto>
        ''{\"obsidian_note_path\": \"~/notes/log.md\", \"project_name\": \"Budget\", ''
        @ ''\"base_ref\": \"\", \"include_diffstat\": 0, \"max_commits\": \" 1_0 \", ''
        @ ''\"max_files\": true}'']
     example_root
     = Inr \<lparr> cfg_obsidian_note_path = JStr ''~/notes/log.md'',
             cfg_project_name = JStr ''Budget'',
             cfg_base_ref = ''origin/main'',
             cfg_include_diffstat = False,
             cfg_max_commits = 10,
             cfg_max_files = 1 \<rparr>"
  "load_config example_rt
     [path_div example_root ''.obsidian-change-summary.json'' \<mapsto> ''{\"max_commits\": \"ten\"}'']
     example_root
     = Inl ValueError"
  by code_simp+

subsection \<open>Writing and reading the checkpoint\<close>

lemma hex_val_hex_digit: "d < 16 \<Longrightarrow> hex_val (hex_digit d) = Some d"
proof -
  assume "d < 16"
  then consider "d < 10" | "10 \<le> d" "d < 16" by linarith
  then show ?thesis
  proof cases
    case 1
    then show ?thesis by (simp add: hex_val_def hex_digit_def Let_def)
  next
    case 2
    then show ?thesis by (simp add: hex_val_def hex_digit_def Let_def)
  qed
qed

lemma hex_val_zero: "hex_val (CHR ''0'') = Some 0"
  by (simp add: hex_val_def)

lemma of_char_less_256: "(of_char (c :: char) :: nat) < 256"
  by (cases c) (simp add: of_char_def)

lemma hex4_byte:
  "hex4 (CHR ''0'') (CHR ''0'') (hex_digit ((of_char c :: nat) div 16))
        (hex_digit ((of_char c :: nat) mod 16)) = Some (of_char c)"
proof -
  have "(of_char c :: nat) div 16 < 16"
    using of_char_less_256 [of c] by (simp add: less_mult_imp_div_less)
  then show ?thesis
    by (simp add: hex4_def hex_val_zero hex_val_hex_digit)
qed

lemma code_units_byte: "code_units (of_char c) = [c]"
  using of_char_less_256 [of c] by (simp add: code_units_def)

lemma scan_string_escape_char:
  "scan_string (escape_char c @ rest) acc = scan_string rest (acc @ [c])"
proof -
  consider (quote) "c = CHR 0x22" | (backslash) "c = CHR 0x5C"
    | (nl) "c = CHR 0x0A" | (cr) "c = CHR 0x0D" | (tab) "c = CHR 0x09"
    | (bs) "c = CHR 0x08" | (ff) "c = CHR 0x0C"
    | (plain) "c \<noteq> CHR 0x22" "c \<noteq> CHR 0x5C" "c \<noteq> CHR 0x0A" "c \<noteq> CHR 0x0D"
        "c \<noteq> CHR 0x09" "c \<noteq> CHR 0x08" "c \<noteq> CHR 0x0C"
        "32 \<le> (of_char c :: nat)" "(of_char c :: nat) \<le> 126"
    | (other) "c \<noteq> CHR 0x22" "c \<noteq> CHR 0x5C" "c \<noteq> CHR 0x0A" "c \<noteq> CHR 0x0D"
        "c \<noteq> CHR 0x09" "c \<noteq> CHR 0x08" "c \<noteq> CHR 0x0C"
        "\<not> (32 \<le> (of_char c :: nat) \<and> (of_char c :: nat) \<le> 126)"
    by blast
  then show ?thesis
  proof cases
    case plain
    then show ?thesis by (simp add: escape_char_def)
  next
    case other
    then show ?thesis
      by (simp add: escape_char_def hex4_byte code_units_byte)
  qed (simp_all add: escape_char_def simple_escape_def)
qed

lemma scan_string_escaped:
  "scan_string (concat (map escape_char s) @ CHR 0x22 # rest) acc = Some (acc @ s, rest)"
proof (induction s arbitrary: acc)
  case Nil
  show ?case by simp
next
  case (Cons c s)
  have "scan_string (concat (map escape_char (c # s)) @ CHR 0x22 # rest) acc
      = scan_string (escape_char c @ (concat (map escape_char s) @ CHR 0x22 # rest)) acc"
    by simp
  also have "\<dots> = scan_string (concat (map escape_char s) @ CHR 0x22 # rest) (acc @ [c])"
    by (rule scan_string_escape_char)
  also have "\<dots> = Some ((acc @ [c]) @ s, rest)"
    by (rule Cons.IH)
  finally show ?case by simp
qed

lemma scan_scalar_json_string:
  "scan_scalar (json_string s @ rest) = Some (TStr s, rest)"
  by (simp add: scan_scalar_def json_string_def scan_string_escaped [of s rest "[]", simplified])

lemma tokens_json_string:
  "tokens (json_string s @ rest) = map_option (\<lambda>ts. TStr s # ts) (tokens rest)"
proof -
  have "json_string s @ rest = CHR 0x22 # (concat (map escape_char s) @ CHR 0x22 # rest)"
    by (simp add: json_string_def)
  moreover have "scan_scalar (CHR 0x22 # (concat (map escape_char s) @ CHR 0x22 # rest))
      = Some (TStr s, rest)"
    using scan_scalar_json_string [of s rest] by (simp add: json_string_def)
  ultimately show ?thesis
    by (simp add: json_ws_def punctuation_def)
qed

lemma tokens_checkpoint:
  "tokens (json_dumps rt (JObj [(''last_sha'', JStr sha)]) @ [CHR 0x0A])
     = Some [TLBrace, TStr ''last_sha'', TColon, TStr sha, TRBrace]"
proof -
  have dumped: "json_dumps rt (JObj [(''last_sha'', JStr sha)]) @ [CHR 0x0A]
      = CHR ''{'' # CHR 0x0A # CHR '' '' # CHR '' ''
        # (json_string ''last_sha'' @ CHR '':'' # CHR '' ''
           # (json_string sha @ [CHR 0x0A, CHR ''}'', CHR 0x0A]))"
    by (simp add: json_dumps_def newline_indent_def numeral_2_eq_2)
  have tail: "tokens [CHR 0x0A, CHR ''}'', CHR 0x0A] = Some [TRBrace]"
    by (simp add: json_ws_def punctuation_def)
  have val: "tokens (json_string sha @ [CHR 0x0A, CHR ''}'', CHR 0x0A])
      = Some [TStr sha, TRBrace]"
    by (simp only: tokens_json_string tail option.map)
  have colon: "tokens (CHR '':'' # CHR '' '' # (json_string sha @ [CHR 0x0A, CHR ''}'', CHR 0x0A]))
      = Some [TColon, TStr sha, TRBrace]"
    by (simp add: val json_ws_def punctuation_def)
  have key: "tokens (json_string ''last_sha'' @ CHR '':'' # CHR '' ''
           # (json_string sha @ [CHR 0x0A, CHR ''}'', CHR 0x0A]))
      = Some [TStr ''last_sha'', TColon, TStr sha, TRBrace]"
    by (simp only: tokens_json_string colon option.map)
  show ?thesis
    unfolding dumped by (simp add: key json_ws_def punctuation_def)
qed

lemma json_loads_checkpoint:
  "json_loads (json_dumps rt (JObj [(''last_sha'', JStr sha)]) @ [CHR 0x0A])
     = Inr (JObj [(''last_sha'', JStr sha)])"
  by (simp add: json_loads_def tokens_checkpoint)

lemma load_written:
  "strip sha \<noteq> [] \<Longrightarrow>
   load_last_sha (write_last_sha rt fs root sha) root = Inr (Some (strip sha))"
  by (simp add: load_last_sha_def write_last_sha_def write_json_def read_json_def
      ensure_parent_dir_def json_loads_checkpoint and_then_def dict_get_def)

text \<open>
  Claim C10. Saving a commit identifier whose trimmed form is not empty and then
  loading the checkpoint of the same repository root returns the trimmed
  identifier.
\<close>

theorem checkpoint_round_trip:
  "strip sha \<noteq> [] \<Longrightarrow>
   load_last_sha (write_last_sha rt fs root sha) root = Inr (Some (strip sha))"
  by (rule load_written)

text \<open>C10 at an identifier with white space around it, in an empty file system.\<close>

theorem checkpoint_round_trip_witness:
  "strip '' fedcba9876543210  '' \<noteq> []
   \<and> load_last_sha
         (write_last_sha example_rt Map.empty (Path ''/home/dev/EscapeBudget'')
            '' fedcba9876543210  '')
         (Path ''/home/dev/EscapeBudget'')
       = Inr (Some ''fedcba9876543210'')"
proof -
  have s: "strip '' fedcba9876543210  '' = ''fedcba9876543210''"
    by (simp add: strip_def lstrip_def rstrip_def is_space_def)
  show ?thesis
    using checkpoint_round_trip [of "'' fedcba9876543210  ''" example_rt Map.empty
        "Path ''/home/dev/EscapeBudget''"]
    by (simp add: s)
qed

subsection \<open>Loading the checkpoint and the configuration\<close>


lemma read_json_present: "fs p = Some content \<Longrightarrow> read_json fs p = json_loads content"
  by (simp add: read_json_def)


lemma json_loads_open_brace: "json_loads ''{'' = Inl JSONDecodeError"
  by (simp add: json_loads_def json_ws_def punctuation_def)





lemma first_config_absent:
  "\<forall>p \<in> set ps. fs p = None \<Longrightarrow> first_config fs ps = Inr (JObj [])"
  by (induction ps) simp_all

lemma load_config_raw:
  "first_config fs (config_paths root) = Inr (JObj []) \<Longrightarrow>
   load_config rt fs root = Inr default_config"
  by (simp add: load_config_def and_then_def dict_get_def default_config_def py_or_def)

lemma load_config_raises:
  "first_config fs (config_paths root) = Inl e \<Longrightarrow> load_config rt fs root = Inl e"
  by (simp add: load_config_def and_then_def)

text \<open>
  Claim C5, as amended. When neither configuration file exists, and when the one
  that is read holds an empty object, loading gives the defaults: no note path, no
  project name, base reference \<open>origin/main\<close>, diffstat included, at most 20 commits
  and 50 files. A configuration file that is malformed is not treated as absent:
  when the content of the first file that exists is not valid JSON, loading raises the
  decoder's error.
\<close>

theorem load_config_cases:
  "((\<forall>p \<in> set (config_paths root). fs p = None) \<longrightarrow>
      load_config rt fs root = Inr default_config)
   \<and> (fs (path_div (path_div root ''.codex'') ''obsidian-change-summary.json'') = Some content
        \<and> json_loads content = Inr (JObj []) \<longrightarrow>
      load_config rt fs root = Inr default_config)
   \<and> (fs (path_div (path_div root ''.codex'') ''obsidian-change-summary.json'') = Some content
        \<and> json_loads content = Inl e \<longrightarrow>
      load_config rt fs root = Inl e)
   \<and> (fs (path_div (path_div root ''.codex'') ''obsidian-change-summary.json'') = None
        \<and> fs (path_div root ''.obsidian-change-summary.json'') = Some content
        \<and> json_loads content = Inl e \<longrightarrow>
      load_config rt fs root = Inl e)
   \<and> default_config =
       \<lparr> cfg_obsidian_note_path = JNull, cfg_project_name = JNull,
         cfg_base_ref = ''origin/main'', cfg_include_diffstat = True,
         cfg_max_commits = 20, cfg_max_files = 50 \<rparr>"
proof -
  have absent: "load_config rt fs root = Inr default_config"
    if "\<forall>p \<in> set (config_paths root). fs p = None"
    using that by (simp add: first_config_absent load_config_raw)
  have empty: "load_config rt fs root = Inr default_config"
    if "fs (path_div (path_div root ''.codex'') ''obsidian-change-summary.json'') = Some content"
      "json_loads content = Inr (JObj [])"
    using that by (intro load_config_raw) (simp add: config_paths_def read_json_present)
  have first: "load_config rt fs root = Inl e"
    if "fs (path_div (path_div root ''.codex'') ''obsidian-change-summary.json'') = Some content"
      "json_loads content = Inl e"
    using that by (intro load_config_raises) (simp add: config_paths_def read_json_present)
  have second: "load_config rt fs root = Inl e"
    if "fs (path_div (path_div root ''.codex'') ''obsidian-change-summary.json'') = None"
      "fs (path_div root ''.obsidian-change-summary.json'') = Some content"
      "json_loads content = Inl e"
    using that by (intro load_config_raises) (simp add: config_paths_def read_json_present)
  from absent empty first second show ?thesis
    by (simp add: default_config_def)
qed

text \<open>
  C5 as amended, at an empty file system and at a configuration file that is cut
  short.
\<close>

theorem load_config_cases_witness:
  "load_config example_rt Map.empty (Path ''/repo'') = Inr default_config
   \<and> load_config example_rt
        [path_div (path_div (Path ''/repo'') ''.codex'') ''obsidian-change-summary.json''
           \<mapsto> ''{'']
        (Path ''/repo'')
       = Inl JSONDecodeError"
  using load_config_cases [where root = "Path ''/repo''" and fs = Map.empty
      and rt = example_rt]
    load_config_cases [where root = "Path ''/repo''" and rt = example_rt
      and content = "''{''" and e = JSONDecodeError and fs =
      "[path_div (path_div (Path ''/repo'') ''.codex'') ''obsidian-change-summary.json''
          \<mapsto> ''{'']"]
  by (simp add: json_loads_open_brace)

text \<open>
  Claim C5 as stated fails: with a configuration file that holds only an opening
  brace, loading raises \<open>JSONDecodeError\<close>, where an absent file gives the defaults.
\<close>

theorem load_config_counterexample:
  "load_config example_rt
     [path_div (path_div (Path ''/repo'') ''.codex'') ''obsidian-change-summary.json''
        \<mapsto> ''{'']
     (Path ''/repo'')
     = Inl JSONDecodeError
   \<and> load_config example_rt Map.empty (Path ''/repo'') = Inr default_config"
  by (simp add: load_config_def config_paths_def read_json_def and_then_def dict_get_def
      json_loads_open_brace default_config_def py_or_def)

section \<open>Properties of the orchestrator\<close>

lemma and_then_Inr:
  "and_then m k = Inr y \<longleftrightarrow> (\<exists>x. m = Inr x \<and> k x = Inr y)"
  by (cases m) (simp_all add: and_then_def)

text \<open>What a run that got as far as line 275 has found on its way.\<close>

lemma main_gather_Gathered:
  assumes "main_gather E a fs = Inr (Gathered g)"
  shows "repo_root_git (env_run E) (env_cwd E) = Inr (g_repo_root g)"
    and "load_config (env_rt E) fs (g_repo_root g) = Inr (g_cfg g)"
    and "g_note g = main_note E a (g_cfg g)"
    and "truthy (env_rt E) (g_note g) \<or> arg_dry_run a"
    and "head_sha (env_run E) (g_repo_root g) = Inr (g_end_sha g)"
    and "main_start_sha E fs a (g_cfg g) (g_repo_root g) = Inr (g_start_sha g)"
    and "git_log_oneline (env_run E) (g_repo_root g) (g_start_sha g) (g_end_sha g)
          = Inr (g_commits g)"
    and "git_name_status (env_run E) (g_repo_root g) (g_start_sha g) (g_end_sha g)
          = Inr (g_files g)"
    and "g_commits g = [] \<and> g_files g = [] \<Longrightarrow>
          \<exists>wt. git_status_porcelain (env_run E) (g_repo_root g) = Inr wt
            \<and> g_working_tree g = (if wt \<noteq> [] then Some wt else None)"
    and "\<not> (g_commits g = [] \<and> g_files g = []) \<Longrightarrow> g_working_tree g = None"
proof -
  note defs = main_gather_def and_then_def Let_def
  obtain root where root: "repo_root_git (env_run E) (env_cwd E) = Inr root"
    using assms by (cases "repo_root_git (env_run E) (env_cwd E)") (simp_all add: defs)
  obtain cfg where cfg: "load_config (env_rt E) fs root = Inr cfg"
    using assms root by (cases "load_config (env_rt E) fs root") (simp_all add: defs)
  have dest: "truthy (env_rt E) (main_note E a cfg) \<or> arg_dry_run a"
    using assms root cfg by (rule_tac ccontr) (simp add: defs)
  obtain end_sha where head: "head_sha (env_run E) root = Inr end_sha"
    using assms root cfg dest
    by (cases "head_sha (env_run E) root") (auto simp: defs)
  obtain start_sha where start: "main_start_sha E fs a cfg root = Inr start_sha"
    using assms root cfg dest head
    by (cases "main_start_sha E fs a cfg root") (auto simp: defs)
  obtain cs where log: "git_log_oneline (env_run E) root start_sha end_sha = Inr cs"
    using assms root cfg dest head start
    by (cases "git_log_oneline (env_run E) root start_sha end_sha") (auto simp: defs)
  obtain fs' where diff: "git_name_status (env_run E) root start_sha end_sha = Inr fs'"
    using assms root cfg dest head start log
    by (cases "git_name_status (env_run E) root start_sha end_sha") (auto simp: defs)
  let ?stat = "if cfg_include_diffstat cfg \<and> \<not> arg_no_diffstat a
               then and_then (git_shortstat (env_run E) root start_sha end_sha)
                      (\<lambda>d. Inr (Some d))
               else Inr None"
  obtain dstat where stat: "?stat = Inr dstat"
    using assms root cfg dest head start log diff
    by (cases ?stat) (auto simp: defs)
  let ?wt = "if cs = [] \<and> fs' = []
             then and_then (git_status_porcelain (env_run E) root)
                    (\<lambda>wt. Inr (if wt \<noteq> [] then Some wt else None))
             else Inr None"
  obtain wtree where wt: "?wt = Inr wtree"
    using assms root cfg dest head start log diff stat
    by (cases ?wt) (auto simp: defs)
  have "main_gather E a fs = Inr (Gathered
      \<lparr> g_repo_root = root, g_cfg = cfg, g_note = main_note E a cfg,
        g_end_sha = end_sha, g_start_sha = start_sha, g_commits = cs, g_files = fs',
        g_diffstat = (case dstat of None \<Rightarrow> None
                      | Some d \<Rightarrow> if d = [] then None else Some d),
        g_working_tree = wtree \<rparr>)"
    using root cfg dest head start log diff stat wt
    unfolding main_gather_def Let_def
    by (simp add: and_then_def)
  with assms have g: "g =
      \<lparr> g_repo_root = root, g_cfg = cfg, g_note = main_note E a cfg,
        g_end_sha = end_sha, g_start_sha = start_sha, g_commits = cs, g_files = fs',
        g_diffstat = (case dstat of None \<Rightarrow> None
                      | Some d \<Rightarrow> if d = [] then None else Some d),
        g_working_tree = wtree \<rparr>"
    by simp
  show "repo_root_git (env_run E) (env_cwd E) = Inr (g_repo_root g)"
    and "load_config (env_rt E) fs (g_repo_root g) = Inr (g_cfg g)"
    and "g_note g = main_note E a (g_cfg g)"
    and "truthy (env_rt E) (g_note g) \<or> arg_dry_run a"
    and "head_sha (env_run E) (g_repo_root g) = Inr (g_end_sha g)"
    and "main_start_sha E fs a (g_cfg g) (g_repo_root g) = Inr (g_start_sha g)"
    and "git_log_oneline (env_run E) (g_repo_root g) (g_start_sha g) (g_end_sha g)
          = Inr (g_commits g)"
    and "git_name_status (env_run E) (g_repo_root g) (g_start_sha g) (g_end_sha g)
          = Inr (g_files g)"
    using root cfg dest head start log diff by (simp_all add: g)
  show "\<exists>wt. git_status_porcelain (env_run E) (g_repo_root g) = Inr wt
            \<and> g_working_tree g = (if wt \<noteq> [] then Some wt else None)"
    if "g_commits g = [] \<and> g_files g = []"
  proof -
    from that have "cs = []" "fs' = []" by (simp_all add: g)
    with wt show ?thesis
      by (cases "git_status_porcelain (env_run E) root") (simp_all add: g and_then_def)
  qed
  show "g_working_tree g = None" if "\<not> (g_commits g = [] \<and> g_files g = [])"
  proof -
    from that have "\<not> (cs = [] \<and> fs' = [])" by (simp add: g)
    with wt show ?thesis by (simp add: g)
  qed
qed


lemma main_Gathered:
  "main_gather E a (st_fs s) = Inr (Gathered g) \<Longrightarrow> main E a s = main_report E a g s"
  by (simp add: main_def)


lemma load_last_sha_nonempty: "load_last_sha fs root = Inr (Some v) \<Longrightarrow> v \<noteq> []"
  by (auto simp: load_last_sha_def and_then_def dict_get_def
      split: sum.splits json.splits option.splits if_splits)

subsection \<open>Trimming twice\<close>

lemma dropWhile_unchanged: "xs = [] \<or> \<not> P (hd xs) \<Longrightarrow> dropWhile P xs = xs"
  by (cases xs) auto

lemma lstrip_head: "lstrip s = [] \<or> \<not> is_space (hd (lstrip s))"
  unfolding lstrip_def using hd_dropWhile [of is_space s] by blast

lemma rstrip_prefix: "\<exists>w. t = rstrip t @ w"
proof -
  have "rstrip t @ rev (takeWhile is_space (rev t))
      = rev (takeWhile is_space (rev t) @ dropWhile is_space (rev t))"
    by (simp only: rstrip_def rev_append)
  also have "\<dots> = t" by simp
  finally show ?thesis by metis
qed

lemma rstrip_unchanged: "u = [] \<or> \<not> is_space (last u) \<Longrightarrow> rstrip u = u"
  unfolding rstrip_def
  by (cases "u = []") (simp_all add: dropWhile_unchanged hd_rev)

lemma strip_strip: "strip (strip s) = strip s"
proof -
  define t where "t = lstrip s"
  define u where "u = rstrip t"
  obtain w where w: "t = u @ w" using rstrip_prefix [of t] by (auto simp: u_def)
  have "u = [] \<or> \<not> is_space (hd u)"
  proof (cases "u = []")
    case True
    then show ?thesis by simp
  next
    case False
    with w have "hd u = hd t" and "t \<noteq> []" by auto
    with lstrip_head [of s] show ?thesis by (simp add: t_def)
  qed
  then have "lstrip u = u" by (simp add: lstrip_def dropWhile_unchanged)
  moreover have "u = [] \<or> \<not> is_space (last u)"
    using rstrip_last [of t] by (auto simp: u_def)
  then have "rstrip u = u" by (rule rstrip_unchanged)
  ultimately show ?thesis by (simp add: strip_def t_def u_def)
qed

lemma head_sha_stripped: "head_sha run cwd = Inr sha \<Longrightarrow> strip sha = sha"
  by (auto simp: head_sha_def and_then_Inr strip_strip)

subsection \<open>The example repository\<close>

lemma strip_example_sha: "strip ''0123456789abcdef\<newline>'' = ''0123456789abcdef''"
  by (simp add: strip_def lstrip_def rstrip_def is_space_def Let_def)

lemma example_merge_base:
  "merge_base (env_run (example_env l d st)) example_root ''origin/main''
     = Inr ''0123456789abcdef''"
  by (simp add: merge_base_def run_git_def example_env_def example_run_def ok_def
      and_then_def strip_example_sha)

lemma strip_abc: "strip ''abc1234'' = ''abc1234''"
  by (simp add: strip_def lstrip_def rstrip_def is_space_def Let_def)

lemma example_load_written:
  "load_last_sha (write_last_sha example_rt Map.empty example_root ''abc1234'') example_root
     = Inr (Some ''abc1234'')"
  using load_written [of "''abc1234''" example_rt Map.empty example_root]
  by (simp add: strip_abc)

lemma example_load_malformed:
  "load_last_sha [state_path example_root \<mapsto> ''{''] example_root = Inl JSONDecodeError"
  by (simp add: load_last_sha_def read_json_def and_then_def json_loads_open_brace)



lemma example_gather_clean:
  "main_gather (example_env '''' '''' '''') example_cli Map.empty
     = Inr (Gathered (example_gathered [] [] None))"
  by code_simp

lemma example_gather_dirty:
  "main_gather (example_env '''' '''' '' M a.py\<newline>?? b.py\<newline>'') example_cli Map.empty
     = Inr (Gathered (example_gathered [] [] (Some ['' M a.py'', ''?? b.py''])))"
  by code_simp

lemma example_gather_commit:
  "main_gather (example_env ''aaaaaaa one\<newline>'' (''M'' @ [CHR 0x09] @ ''a.py\<newline>'')
        '' M a.py\<newline>'')
       example_cli Map.empty
     = Inr (Gathered (example_gathered [''aaaaaaa one''] [''M a.py''] None))"
  by code_simp

subsection \<open>The claims about \<open>main\<close>\<close>

text \<open>
  Claim C1, as amended. An explicit override that is not empty is the start of the
  range. Without one (none given, or an empty one), when the state is consulted and
  loading the checkpoint returns a value, that value is the start. Without one,
  when the state is not consulted or the checkpoint loads as absent, the start is
  what the merge base of the base reference and \<open>HEAD\<close> gives. Without one, when the
  state is consulted and loading the checkpoint raises, the resolution raises the
  same error. The start that \<open>main\<close> goes on with is the one resolved this way.
\<close>

theorem range_start_priority:
  "(arg_since a = Some s \<and> s \<noteq> [] \<longrightarrow> main_start_sha E fs a cfg root = Inr s)
   \<and> ((arg_since a = None \<or> arg_since a = Some []) \<and> \<not> arg_no_state a
        \<and> load_last_sha fs root = Inr (Some v) \<longrightarrow>
      main_start_sha E fs a cfg root = Inr v)
   \<and> ((arg_since a = None \<or> arg_since a = Some [])
        \<and> (arg_no_state a \<or> load_last_sha fs root = Inr None) \<longrightarrow>
      main_start_sha E fs a cfg root
        = merge_base (env_run E) root (or_else (arg_base a) (cfg_base_ref cfg)))
   \<and> ((arg_since a = None \<or> arg_since a = Some []) \<and> \<not> arg_no_state a
        \<and> load_last_sha fs root = Inl e \<longrightarrow>
      main_start_sha E fs a cfg root = Inl e)
   \<and> (main_gather E a fs = Inr (Gathered g) \<longrightarrow>
      main_start_sha E fs a (g_cfg g) (g_repo_root g) = Inr (g_start_sha g))"
proof -
  have override: "main_start_sha E fs a cfg root = Inr s"
    if "arg_since a = Some s" "s \<noteq> []"
    using that by (simp add: main_start_sha_def and_then_def)
  have stored: "main_start_sha E fs a cfg root = Inr v"
    if "arg_since a = None \<or> arg_since a = Some []" "\<not> arg_no_state a"
      "load_last_sha fs root = Inr (Some v)"
    using that load_last_sha_nonempty [of fs root v]
    by (auto simp: main_start_sha_def and_then_def)
  have fallback: "main_start_sha E fs a cfg root
      = merge_base (env_run E) root (or_else (arg_base a) (cfg_base_ref cfg))"
    if "arg_since a = None \<or> arg_since a = Some []"
      "arg_no_state a \<or> load_last_sha fs root = Inr None"
    using that by (auto simp: main_start_sha_def and_then_def)
  have raises: "main_start_sha E fs a cfg root = Inl e"
    if "arg_since a = None \<or> arg_since a = Some []" "\<not> arg_no_state a"
      "load_last_sha fs root = Inl e"
    using that by (auto simp: main_start_sha_def and_then_def)
  from override stored fallback raises main_gather_Gathered(6) [of E a fs g]
  show ?thesis by blast
qed

text \<open>
  C1 as amended, for the example repository: an override beside a stored
  checkpoint, a stored checkpoint alone, neither of them, and a state file that is
  cut short.
\<close>

theorem range_start_priority_witness:
  "main_start_sha (example_env '''' '''' '''')
       (write_last_sha example_rt Map.empty example_root ''abc1234'')
       (example_cli \<lparr> arg_since := Some ''1111111'' \<rparr>) default_config example_root
     = Inr ''1111111''
   \<and> main_start_sha (example_env '''' '''' '''')
       (write_last_sha example_rt Map.empty example_root ''abc1234'')
       example_cli default_config example_root
     = Inr ''abc1234''
   \<and> main_start_sha (example_env '''' '''' '''') Map.empty
       example_cli default_config example_root
     = Inr ''0123456789abcdef''
   \<and> main_start_sha (example_env '''' '''' '''') [state_path example_root \<mapsto> ''{'']
       example_cli default_config example_root
     = Inl JSONDecodeError"
proof -
  let ?E = "example_env '''' '''' ''''"
  let ?stored = "write_last_sha example_rt Map.empty example_root ''abc1234''"
  have absent: "load_last_sha Map.empty example_root = Inr None"
    by (simp add: load_last_sha_def read_json_def and_then_def dict_get_def)
  have base: "or_else (arg_base example_cli) (cfg_base_ref default_config) = ''origin/main''"
    by (simp add: or_else_def example_cli_def default_config_def)
  have "main_start_sha ?E ?stored (example_cli \<lparr> arg_since := Some ''1111111'' \<rparr>)
      default_config example_root = Inr ''1111111''"
    using range_start_priority [where a = "example_cli \<lparr> arg_since := Some ''1111111'' \<rparr>"
        and s = "''1111111''" and E = ?E and fs = ?stored and cfg = default_config
        and root = example_root]
    by simp
  moreover have "main_start_sha ?E ?stored example_cli default_config example_root
      = Inr ''abc1234''"
    using range_start_priority [where a = example_cli and E = ?E and fs = ?stored
        and cfg = default_config and root = example_root and v = "''abc1234''"]
    by (simp add: example_load_written) (simp add: example_cli_def)
  moreover have "main_start_sha ?E Map.empty example_cli default_config example_root
      = Inr ''0123456789abcdef''"
    using range_start_priority [where a = example_cli and E = ?E and fs = Map.empty
        and cfg = default_config and root = example_root]
    by (simp add: absent base example_merge_base) (simp add: example_cli_def)
  moreover have "main_start_sha ?E [state_path example_root \<mapsto> ''{'']
      example_cli default_config example_root = Inl JSONDecodeError"
    using range_start_priority [where a = example_cli and E = ?E
        and fs = "[state_path example_root \<mapsto> ''{'']"
        and cfg = default_config and root = example_root and e = JSONDecodeError]
    by (simp add: example_load_malformed) (simp add: example_cli_def)
  ultimately show ?thesis by simp
qed

text \<open>
  Claim C1 as stated fails at two invocations on the example repository, whose merge
  base is \<open>0123456789abcdef\<close>. With no override, the state consulted and a state
  file that is cut short, the resolution raises \<open>JSONDecodeError\<close> and no merge base
  is used. With the empty string given as override and a stored checkpoint, the
  checkpoint is the start, not the override.
\<close>

theorem range_start_counterexample:
  "main_start_sha (example_env '''' '''' '''') [state_path example_root \<mapsto> ''{'']
       example_cli default_config example_root
     = Inl JSONDecodeError
   \<and> merge_base (env_run (example_env '''' '''' '''')) example_root
       (or_else (arg_base example_cli) (cfg_base_ref default_config))
     = Inr ''0123456789abcdef''
   \<and> main_start_sha (example_env '''' '''' '''')
       (write_last_sha example_rt Map.empty example_root ''abc1234'')
       (example_cli \<lparr> arg_since := Some '''' \<rparr>) default_config example_root
     = Inr ''abc1234''"
  by (simp add: main_start_sha_def and_then_def example_cli_def example_load_malformed
      example_load_written or_else_def default_config_def example_merge_base)

text \<open>
  Claim C7. When a run has found the commit list, the list of changed files and the
  status of the working tree all empty, \<open>main\<close> prints the message of no changes,
  returns 0, and changes no file but the state file: the state file gets the end
  commit, which is \<open>HEAD\<close>, unless \<open>--no-state\<close> or \<open>--dry-run\<close> is given, and
  loading the checkpoint afterwards returns that commit. The note is not written.
\<close>

theorem no_changes_short_circuit:
  "main_gather E a (st_fs s) = Inr (Gathered g) \<and> g_commits g = [] \<and> g_files g = []
     \<and> g_working_tree g = None \<longrightarrow>
   main E a s =
     (s \<lparr> st_fs :=
            (if arg_no_state a \<or> arg_dry_run a then st_fs s
             else (st_fs s)(state_path (g_repo_root g) \<mapsto>
                    json_dumps (env_rt E) (JObj [(''last_sha'', JStr (g_end_sha g))])
                    @ [CHR 0x0A])),
          st_out := st_out s @ no_changes_message @ [CHR 0x0A] \<rparr>,
      Inr 0)
   \<and> head_sha (env_run E) (g_repo_root g) = Inr (g_end_sha g)
   \<and> (\<not> arg_no_state a \<and> \<not> arg_dry_run a \<and> g_end_sha g \<noteq> [] \<longrightarrow>
        load_last_sha (st_fs (fst (main E a s))) (g_repo_root g) = Inr (Some (g_end_sha g)))"
proof (intro impI, elim conjE)
  assume g: "main_gather E a (st_fs s) = Inr (Gathered g)"
    and empty: "g_commits g = []" "g_files g = []" "g_working_tree g = None"
  have head: "head_sha (env_run E) (g_repo_root g) = Inr (g_end_sha g)"
    using main_gather_Gathered(5) [OF g] .
  have run: "main E a s =
     (s \<lparr> st_fs :=
            (if arg_no_state a \<or> arg_dry_run a then st_fs s
             else (st_fs s)(state_path (g_repo_root g) \<mapsto>
                    json_dumps (env_rt E) (JObj [(''last_sha'', JStr (g_end_sha g))])
                    @ [CHR 0x0A])),
          st_out := st_out s @ no_changes_message @ [CHR 0x0A] \<rparr>,
      Inr 0)"
    using empty
    by (simp add: main_Gathered [OF g] main_report_def write_last_sha_def write_json_def
        ensure_parent_dir_def Let_def)
  have "load_last_sha (st_fs (fst (main E a s))) (g_repo_root g) = Inr (Some (g_end_sha g))"
    if "\<not> arg_no_state a" "\<not> arg_dry_run a" "g_end_sha g \<noteq> []"
  proof -
    have "strip (g_end_sha g) = g_end_sha g" using head by (rule head_sha_stripped)
    with that load_written [of "g_end_sha g" "env_rt E" "st_fs s" "g_repo_root g"]
    show ?thesis
      by (simp add: run write_last_sha_def write_json_def ensure_parent_dir_def)
  qed
  with run head show "main E a s =
     (s \<lparr> st_fs :=
            (if arg_no_state a \<or> arg_dry_run a then st_fs s
             else (st_fs s)(state_path (g_repo_root g) \<mapsto>
                    json_dumps (env_rt E) (JObj [(''last_sha'', JStr (g_end_sha g))])
                    @ [CHR 0x0A])),
          st_out := st_out s @ no_changes_message @ [CHR 0x0A] \<rparr>,
      Inr 0)
   \<and> head_sha (env_run E) (g_repo_root g) = Inr (g_end_sha g)
   \<and> (\<not> arg_no_state a \<and> \<not> arg_dry_run a \<and> g_end_sha g \<noteq> [] \<longrightarrow>
        load_last_sha (st_fs (fst (main E a s))) (g_repo_root g) = Inr (Some (g_end_sha g)))"
    by blast
qed

text \<open>
  C7 for the example repository with nothing to report: the run prints the message,
  returns 0 and leaves the end commit in the state file.
\<close>

theorem no_changes_short_circuit_witness:
  "main_gather (example_env '''' '''' '''') example_cli (st_fs empty_state)
     = Inr (Gathered (example_gathered [] [] None))
   \<and> main (example_env '''' '''' '''') example_cli empty_state
     = (\<lparr> st_fs = [state_path example_root \<mapsto>
                     json_dumps example_rt (JObj [(''last_sha'', JStr ''fedcba9876543210'')])
                     @ ''\<newline>''],
          st_out = no_changes_message @ ''\<newline>'',
          st_err = '''' \<rparr>,
        Inr 0)
   \<and> load_last_sha (st_fs (fst (main (example_env '''' '''' '''') example_cli empty_state)))
       example_root
     = Inr (Some ''fedcba9876543210'')"
proof -
  let ?E = "example_env '''' '''' ''''"
  let ?g = "example_gathered [] [] None"
  have g: "main_gather ?E example_cli (st_fs empty_state) = Inr (Gathered ?g)"
    using example_gather_clean by (simp add: empty_state_def)
  have hyp: "main_gather ?E example_cli (st_fs empty_state) = Inr (Gathered ?g)
      \<and> g_commits ?g = [] \<and> g_files ?g = [] \<and> g_working_tree ?g = None"
    using g by (simp add: example_gathered_def)
  note concl = no_changes_short_circuit [of ?E example_cli empty_state ?g, rule_format, OF hyp]
  have run: "main ?E example_cli empty_state
     = (\<lparr> st_fs = [state_path example_root \<mapsto>
                     json_dumps example_rt (JObj [(''last_sha'', JStr ''fedcba9876543210'')])
                     @ ''\<newline>''],
          st_out = no_changes_message @ ''\<newline>'',
          st_err = '''' \<rparr>,
        Inr 0)"
    using concl [THEN conjunct1]
    by (simp add: example_gathered_def empty_state_def example_cli_def example_env_def)
  have "load_last_sha (st_fs (fst (main ?E example_cli empty_state))) example_root
      = Inr (Some ''fedcba9876543210'')"
    using concl [THEN conjunct2, THEN conjunct2]
    by (simp add: example_gathered_def example_cli_def)
  with g run show ?thesis by simp
qed



text \<open>
  Claim C9. In a run that got as far as the entry, the list of working-tree lines is
  present exactly when the commit list and the file list are empty and the status of
  the working tree has a line. The entry then has no Commits and no Files section,
  and its section \<open>Working tree (uncommitted)\<close> is the heading, each status line as
  given behind a dash, and a blank line. Without such a list the entry has no such
  section.
\<close>

theorem working_tree_fallback:
  "main_gather E a fs = Inr (Gathered g) \<longrightarrow>
     (g_working_tree g \<noteq> None \<longleftrightarrow>
        g_commits g = [] \<and> g_files g = []
        \<and> (\<exists>wt. git_status_porcelain (env_run E) (g_repo_root g) = Inr wt \<and> wt \<noteq> []))
     \<and> (case g_working_tree g of
          None \<Rightarrow> working_tree_block (main_entry_args E g br) = []
        | Some wt \<Rightarrow>
            git_status_porcelain (env_run E) (g_repo_root g) = Inr wt
            \<and> commits_block (main_entry_args E g br) = []
            \<and> files_block (main_entry_args E g br) = []
            \<and> working_tree_block (main_entry_args E g br)
                = [''### Working tree (uncommitted)''] @ map (\<lambda>ln. ''- '' @ ln) wt @ [''''])
     \<and> entry_lines (main_entry_args E g br)
         = header_block (main_entry_args E g br) @ commits_block (main_entry_args E g br)
           @ files_block (main_entry_args E g br) @ stats_block (main_entry_args E g br)
           @ working_tree_block (main_entry_args E g br)"
proof
  assume g: "main_gather E a fs = Inr (Gathered g)"
  let ?args = "main_entry_args E g br"
  note status = main_gather_Gathered(9) [OF g] and other = main_gather_Gathered(10) [OF g]
  have present: "g_working_tree g \<noteq> None \<longleftrightarrow>
      g_commits g = [] \<and> g_files g = []
      \<and> (\<exists>wt. git_status_porcelain (env_run E) (g_repo_root g) = Inr wt \<and> wt \<noteq> [])"
  proof (cases "g_commits g = [] \<and> g_files g = []")
    case True
    with status obtain wt where
      "git_status_porcelain (env_run E) (g_repo_root g) = Inr wt"
      "g_working_tree g = (if wt \<noteq> [] then Some wt else None)"
      by blast
    with True show ?thesis by auto
  next
    case False
    with other show ?thesis by auto
  qed
  have block: "case g_working_tree g of
      None \<Rightarrow> working_tree_block ?args = []
    | Some wt \<Rightarrow>
        git_status_porcelain (env_run E) (g_repo_root g) = Inr wt
        \<and> commits_block ?args = [] \<and> files_block ?args = []
        \<and> working_tree_block ?args
            = [''### Working tree (uncommitted)''] @ map (\<lambda>ln. ''- '' @ ln) wt @ ['''']"
  proof (cases "g_working_tree g")
    case None
    then show ?thesis by (simp add: working_tree_block_def main_entry_args_def)
  next
    case (Some wt)
    with other have empty: "g_commits g = []" "g_files g = []" by auto
    with status obtain wt' where wt':
      "git_status_porcelain (env_run E) (g_repo_root g) = Inr wt'"
      "g_working_tree g = (if wt' \<noteq> [] then Some wt' else None)"
      by blast
    with Some have "wt' = wt" "wt \<noteq> []" by (auto split: if_splits)
    with Some wt' empty show ?thesis
      by (simp add: working_tree_block_def commits_block_def files_block_def
          main_entry_args_def bullet_def)
  qed
  from present block entry_lines_blocks [of ?args]
  show "(g_working_tree g \<noteq> None \<longleftrightarrow>
        g_commits g = [] \<and> g_files g = []
        \<and> (\<exists>wt. git_status_porcelain (env_run E) (g_repo_root g) = Inr wt \<and> wt \<noteq> []))
     \<and> (case g_working_tree g of
          None \<Rightarrow> working_tree_block ?args = []
        | Some wt \<Rightarrow>
            git_status_porcelain (env_run E) (g_repo_root g) = Inr wt
            \<and> commits_block ?args = []
            \<and> files_block ?args = []
            \<and> working_tree_block ?args
                = [''### Working tree (uncommitted)''] @ map (\<lambda>ln. ''- '' @ ln) wt @ [''''])
     \<and> entry_lines ?args
         = header_block ?args @ commits_block ?args
           @ files_block ?args @ stats_block ?args
           @ working_tree_block ?args"
    by blast
qed

text \<open>
  C9 for the example repository. With two uncommitted changes and nothing committed,
  the entry has the section with the two status lines and neither of the other two.
  With one commit and one changed file beside an uncommitted change, it has no such
  section.
\<close>

theorem working_tree_fallback_witness:
  "main_gather (example_env '''' '''' '' M a.py\<newline>?? b.py\<newline>'') example_cli Map.empty
     = Inr (Gathered (example_gathered [] [] (Some ['' M a.py'', ''?? b.py''])))
   \<and> working_tree_block
       (main_entry_args (example_env '''' '''' '' M a.py\<newline>?? b.py\<newline>'')
          (example_gathered [] [] (Some ['' M a.py'', ''?? b.py''])) ''main'')
     = [''### Working tree (uncommitted)'', ''-  M a.py'', ''- ?? b.py'', '''']
   \<and> commits_block
       (main_entry_args (example_env '''' '''' '' M a.py\<newline>?? b.py\<newline>'')
          (example_gathered [] [] (Some ['' M a.py'', ''?? b.py''])) ''main'')
     = []
   \<and> files_block
       (main_entry_args (example_env '''' '''' '' M a.py\<newline>?? b.py\<newline>'')
          (example_gathered [] [] (Some ['' M a.py'', ''?? b.py''])) ''main'')
     = []
   \<and> main_gather
       (example_env ''aaaaaaa one\<newline>'' (''M'' @ [CHR 0x09] @ ''a.py\<newline>'')
          '' M a.py\<newline>'')
       example_cli Map.empty
     = Inr (Gathered (example_gathered [''aaaaaaa one''] [''M a.py''] None))
   \<and> working_tree_block
       (main_entry_args
          (example_env ''aaaaaaa one\<newline>'' (''M'' @ [CHR 0x09] @ ''a.py\<newline>'')
             '' M a.py\<newline>'')
          (example_gathered [''aaaaaaa one''] [''M a.py''] None) ''main'')
     = []"
proof -
  let ?dirty = "example_env '''' '''' '' M a.py\<newline>?? b.py\<newline>''"
  let ?mixed = "example_env ''aaaaaaa one\<newline>'' (''M'' @ [CHR 0x09] @ ''a.py\<newline>'')
      '' M a.py\<newline>''"
  have "working_tree_block
      (main_entry_args ?dirty (example_gathered [] [] (Some ['' M a.py'', ''?? b.py'']))
         ''main'')
        = [''### Working tree (uncommitted)'', ''-  M a.py'', ''- ?? b.py'', '''']
      \<and> commits_block
        (main_entry_args ?dirty (example_gathered [] [] (Some ['' M a.py'', ''?? b.py'']))
           ''main'') = []
      \<and> files_block
        (main_entry_args ?dirty (example_gathered [] [] (Some ['' M a.py'', ''?? b.py'']))
           ''main'') = []"
    using working_tree_fallback [of ?dirty example_cli Map.empty
        "example_gathered [] [] (Some ['' M a.py'', ''?? b.py''])" "''main''"]
      example_gather_dirty
    by (simp add: example_gathered_def)
  moreover have "working_tree_block
      (main_entry_args ?mixed (example_gathered [''aaaaaaa one''] [''M a.py''] None) ''main'')
        = []"
    using working_tree_fallback [of ?mixed example_cli Map.empty
        "example_gathered [''aaaaaaa one''] [''M a.py''] None" "''main''"]
      example_gather_commit
    by (simp add: example_gathered_def)
  ultimately show ?thesis
    using example_gather_dirty example_gather_commit by simp
qed

end
